theory Spec2Isabelle
  imports Main
begin

section \<open>The activity board of \<^verbatim>\<open>src/static/app.js\<close>\<close>

text \<open>
  The script is one \<^verbatim>\<open>DOMContentLoaded\<close> listener that defines \<^verbatim>\<open>showMessage\<close>,
  \<^verbatim>\<open>updateActivityCard\<close>, \<^verbatim>\<open>fetchActivities\<close>, a submit handler and a click handler.
  Each of them is embedded as a function on an explicit page state. What the browser and
  the server contribute (the outcome of each \<^verbatim>\<open>fetch\<close>, the answer to
  \<^verbatim>\<open>confirm\<close>, the clicked element, the selector engine's answer to a selector text
  that is not a plain attribute selector) is an argument of the function that consumes it.
  An \<^verbatim>\<open>async\<close> function is embedded by the effects of its body in program order;
  the interleaving of several requests in flight is not part of the model.
\<close>

subsection \<open>DOM nodes\<close>

text \<open>
  An element has a tag, its attributes in the order they were set, and its child nodes.
  \<^verbatim>\<open>el.textContent = s\<close> on a fresh element gives it the single child \<open>Text s\<close>;
  \<^verbatim>\<open>el.className = s\<close> sets the attribute \<^verbatim>\<open>class\<close>;
  \<^verbatim>\<open>el.dataset.activityName = s\<close> sets the attribute \<^verbatim>\<open>data-activity-name\<close>.
  Strings are byte strings (UTF-8).
\<close>

datatype node = Text string | Element string "(string \<times> string) list" "node list"

fun attrs :: "node \<Rightarrow> (string \<times> string) list" where
  "attrs (Text t) = []"
| "attrs (Element tg as ks) = as"

fun kids :: "node \<Rightarrow> node list" where
  "kids (Text t) = []"
| "kids (Element tg as ks) = ks"

text \<open>\<^verbatim>\<open>el.innerHTML = ''\<close> followed by \<^verbatim>\<open>appendChild\<close> calls: the children are replaced.\<close>

fun set_kids :: "node list \<Rightarrow> node \<Rightarrow> node" where
  "set_kids ks' (Text t) = Text t"
| "set_kids ks' (Element tg as ks) = Element tg as ks'"

definition get_attr :: "node \<Rightarrow> string \<Rightarrow> string option" where
  "get_attr n k = map_of (attrs n) k"

text \<open>
  The class list of an element: its \<^verbatim>\<open>class\<close> attribute split at ASCII whitespace,
  each token kept once, in order of first occurrence.
\<close>

definition ascii_whitespace :: "char \<Rightarrow> bool" where
  "ascii_whitespace c =
     (c = CHR '' '' \<or> c = CHR 0x09 \<or> c = CHR 0x0A \<or> c = CHR 0x0C \<or> c = CHR 0x0D)"

fun split_tokens :: "string \<Rightarrow> string \<Rightarrow> string list" where
  "split_tokens cur [] = (if cur = [] then [] else [cur])"
| "split_tokens cur (c # cs) =
     (if ascii_whitespace c
      then (if cur = [] then split_tokens [] cs else cur # split_tokens [] cs)
      else split_tokens (cur @ [c]) cs)"

fun ordered_set :: "string list \<Rightarrow> string list" where
  "ordered_set [] = []"
| "ordered_set (t # ts) = t # ordered_set (removeAll t ts)"

definition class_tokens :: "string \<Rightarrow> string list" where
  "class_tokens s = ordered_set (split_tokens [] s)"

definition class_list :: "node \<Rightarrow> string list" where
  "class_list n = (case get_attr n ''class'' of None \<Rightarrow> [] | Some s \<Rightarrow> class_tokens s)"

definition has_class :: "string \<Rightarrow> node \<Rightarrow> bool" where
  "has_class c n = (c \<in> set (class_list n))"

definition has_attr_value :: "string \<Rightarrow> string \<Rightarrow> node \<Rightarrow> bool" where
  "has_attr_value k v n = (get_attr n k = Some v)"

text \<open>
  \<^verbatim>\<open>querySelector\<close>: the first element, in tree order, among the descendants that
  matches; \<open>None\<close> is JavaScript's \<^verbatim>\<open>null\<close>.
\<close>

fun query_node :: "(node \<Rightarrow> bool) \<Rightarrow> node \<Rightarrow> node option"
  and query :: "(node \<Rightarrow> bool) \<Rightarrow> node list \<Rightarrow> node option" where
  "query_node P (Text t) = None"
| "query_node P (Element tg as ks) =
     (if P (Element tg as ks) then Some (Element tg as ks) else query P ks)"
| "query P [] = None"
| "query P (n # ns) = (case query_node P n of Some r \<Rightarrow> Some r | None \<Rightarrow> query P ns)"

text \<open>
  The code keeps a reference to the element a query returned and mutates it in place.
  \<open>modify P f\<close> applies \<open>f\<close> to the element \<open>query P\<close> returns and leaves every other
  node as it is.
\<close>

fun modify_node :: "(node \<Rightarrow> bool) \<Rightarrow> (node \<Rightarrow> node) \<Rightarrow> node \<Rightarrow> node"
  and modify :: "(node \<Rightarrow> bool) \<Rightarrow> (node \<Rightarrow> node) \<Rightarrow> node list \<Rightarrow> node list" where
  "modify_node P f (Text t) = Text t"
| "modify_node P f (Element tg as ks) =
     (if P (Element tg as ks) then f (Element tg as ks) else Element tg as (modify P f ks))"
| "modify P f [] = []"
| "modify P f (n # ns) =
     (case query_node P n of Some r \<Rightarrow> modify_node P f n # ns | None \<Rightarrow> n # modify P f ns)"

text \<open>
  A place in a list of nodes: the index of a node in the list, then the place among that
  node's children. \<open>element_at\<close> reads the element at a place and \<open>update_at\<close>
  applies a function to the node there.
\<close>

fun node_at :: "nat list \<Rightarrow> node list \<Rightarrow> node option" where
  "node_at [] ns = None"
| "node_at [i] ns = (if i < length ns then Some (ns ! i) else None)"
| "node_at (i # j # p) ns = (if i < length ns then node_at (j # p) (kids (ns ! i)) else None)"

definition element_at :: "nat list \<Rightarrow> node list \<Rightarrow> node option" where
  "element_at p ns =
     (case node_at p ns of
        Some (Element tg as ks) \<Rightarrow> Some (Element tg as ks)
      | _ \<Rightarrow> None)"

fun update_at :: "nat list \<Rightarrow> (node \<Rightarrow> node) \<Rightarrow> node list \<Rightarrow> node list" where
  "update_at [] f ns = ns"
| "update_at [i] f ns = (if i < length ns then ns[i := f (ns ! i)] else ns)"
| "update_at (i # j # p) f ns =
     (if i < length ns
      then ns[i := set_kids (update_at (j # p) f (kids (ns ! i))) (ns ! i)]
      else ns)"

subsection \<open>Server data\<close>

text \<open>
  An activity as the server reports it (\<^verbatim>\<open>GET /activities\<close> maps each name to
  \<^verbatim>\<open>{description, schedule, max_participants, participants}\<close>). A catalog is the
  parsed response object, given by its own properties in the order
  \<^verbatim>\<open>Object.entries\<close> lists them; a JavaScript object holds each key once, which
  \<open>distinct (map fst c)\<close> says. Capacities are integers; JavaScript numbers represent
  integers exactly up to \<open>2 ^ 53\<close>, the range the model is meant for. A body that
  parses but is not an object of this shape is outside the model.
\<close>

record activity =
  description :: string
  schedule :: string
  max_participants :: int
  participants :: "string list"

type_synonym catalog = "(string \<times> activity) list"

text \<open>
  What a request resolved to: \<^verbatim>\<open>fetch\<close> rejected (network failure),
  \<^verbatim>\<open>response.json()\<close> rejected (the body is not JSON), or the parsed body.
\<close>

datatype 'a fetched = Rejected | Not_json | Json 'a

text \<open>
  The reply to a signup or unregister request: \<^verbatim>\<open>response.ok\<close>, and the
  \<^verbatim>\<open>message\<close> and \<^verbatim>\<open>detail\<close> fields of the parsed body, \<open>None\<close> when the
  body has no such field.
\<close>

datatype reply = Reply bool "string option" "string option"

fun reply_ok :: "reply \<Rightarrow> bool" where
  "reply_ok (Reply ok m d) = ok"

fun reply_message :: "reply \<Rightarrow> string option" where
  "reply_message (Reply ok m d) = m"

fun reply_detail :: "reply \<Rightarrow> string option" where
  "reply_detail (Reply ok m d) = d"

text \<open>
  \<^verbatim>\<open>activities[activityName]\<close> reads an own property of the parsed object or, when
  there is none, a property inherited from \<^verbatim>\<open>Object.prototype\<close>. Every inherited
  member is a function or an object, so it passes the test
  \<^verbatim>\<open>!activities[activityName]\<close>, and it has no \<^verbatim>\<open>participants\<close>.
\<close>

definition object_prototype_names :: "string list" where
  "object_prototype_names =
     [''constructor'', ''hasOwnProperty'', ''isPrototypeOf'', ''propertyIsEnumerable'',
      ''toLocaleString'', ''toString'', ''valueOf'', ''__proto__'',
      ''__defineGetter__'', ''__defineSetter__'', ''__lookupGetter__'', ''__lookupSetter__'']"

datatype property = Own activity | Inherited | Undefined

definition js_get :: "catalog \<Rightarrow> string \<Rightarrow> property" where
  "js_get activities k =
     (case map_of activities k of
        Some details \<Rightarrow> Own details
      | None \<Rightarrow> if k \<in> set object_prototype_names then Inherited else Undefined)"

text \<open>A number in a template literal: decimal digits, with a minus sign when negative.\<close>

fun nat_digits :: "nat \<Rightarrow> string" where
  "nat_digits n =
     (if n < 10 then [''0123456789'' ! n]
      else nat_digits (n div 10) @ [''0123456789'' ! (n mod 10)])"

declare nat_digits.simps [simp del]

definition number_to_string :: "int \<Rightarrow> string" where
  "number_to_string i = (if i < 0 then CHR ''-'' # nat_digits (nat (- i)) else nat_digits (nat i))"

text \<open>
  A value that may be \<^verbatim>\<open>undefined\<close>: in a template literal it reads
  \<^verbatim>\<open>undefined\<close>; assigned to \<^verbatim>\<open>textContent\<close> it is the empty string.
\<close>

definition template_string :: "string option \<Rightarrow> string" where
  "template_string v = (case v of None \<Rightarrow> ''undefined'' | Some s \<Rightarrow> s)"

definition dom_string :: "string option \<Rightarrow> string" where
  "dom_string v = (case v of None \<Rightarrow> [] | Some s \<Rightarrow> s)"

text \<open>\<^verbatim>\<open>result.detail || "An error occurred"\<close>: the empty string is falsy.\<close>

definition detail_or_default :: "reply \<Rightarrow> string" where
  "detail_or_default r =
     (case reply_detail r of
        None \<Rightarrow> ''An error occurred''
      | Some d \<Rightarrow> if d = [] then ''An error occurred'' else d)"

subsection \<open>Building a card\<close>

text \<open>\<^verbatim>\<open>el.textContent = s\<close> on an element without children: no text node for the empty string.\<close>

definition text_content :: "string \<Rightarrow> node list" where
  "text_content s = (if s = [] then [] else [Text s])"

text \<open>The label of the removal button, U+1F5D1 U+FE0F in UTF-8.\<close>

definition wastebasket :: string where
  "wastebasket = [CHR 0xF0, CHR 0x9F, CHR 0x97, CHR 0x91, CHR 0xEF, CHR 0xB8, CHR 0x8F]"

text \<open>
  The availability paragraph's children and the participants section's children are
  built by the same statements in \<^verbatim>\<open>fetchActivities\<close> (lines 123-161) and in
  \<^verbatim>\<open>updateActivityCard\<close> (lines 43-83).
\<close>

definition spots_left :: "activity \<Rightarrow> int" where
  "spots_left details = max_participants details - int (length (participants details))"

definition availability_content :: "int \<Rightarrow> node list" where
  "availability_content spotsLeft =
     [Element ''strong'' [] (text_content ''Availability:''),
      Text ('' '' @ number_to_string spotsLeft @ '' spots left'')]"

definition participant_item :: "string \<Rightarrow> string \<Rightarrow> node" where
  "participant_item name email =
     Element ''li'' []
       (text_content email @
        [Element ''button''
           [(''class'', ''remove-participant-btn''),
            (''data-activity'', name),
            (''data-email'', email),
            (''aria-label'', ''Remove '' @ email @ '' from '' @ name)]
           (text_content wastebasket)])"

definition participants_content :: "string \<Rightarrow> activity \<Rightarrow> node list" where
  "participants_content name details =
     Element ''strong'' [] (text_content ''Participants:'') #
     (if length (participants details) > 0
      then [Element ''ul'' [(''class'', ''participants-list'')]
              (map (participant_item name) (participants details))]
      else [Element ''p'' [(''class'', ''no-participants'')]
              (text_content ''No participants yet. Be the first to sign up!'')])"

definition card_title :: "string \<Rightarrow> node" where
  "card_title name = Element ''h4'' [] (text_content name)"

definition card_description :: "activity \<Rightarrow> node" where
  "card_description details = Element ''p'' [] (text_content (description details))"

definition card_schedule :: "activity \<Rightarrow> node" where
  "card_schedule details =
     Element ''p'' []
       [Element ''strong'' [] (text_content ''Schedule:''), Text ('' '' @ schedule details)]"

definition card_availability :: "activity \<Rightarrow> node" where
  "card_availability details =
     Element ''p'' [(''class'', ''availability'')] (availability_content (spots_left details))"

definition card_participants :: "string \<Rightarrow> activity \<Rightarrow> node" where
  "card_participants name details =
     Element ''div'' [(''class'', ''participants-section'')] (participants_content name details)"

definition activity_card :: "string \<Rightarrow> activity \<Rightarrow> node" where
  "activity_card name details =
     Element ''div'' [(''class'', ''activity-card''), (''data-activity-name'', name)]
       [card_title name, card_description details, card_schedule details,
        card_availability details, card_participants name details]"

definition select_option :: "string \<Rightarrow> node" where
  "select_option name = Element ''option'' [(''value'', name)] (text_content name)"

text \<open>The markup assigned to \<^verbatim>\<open>activitiesList.innerHTML\<close> when loading fails.\<close>

definition failure_paragraph :: node where
  "failure_paragraph =
     Element ''p'' [] [Text ''Failed to load activities. Please try again later.'']"

subsection \<open>The page\<close>

datatype request =
  Get_activities
| Post_signup string string
| Delete_unregister string string

text \<open>
  The state the script reads and writes: the children of \<^verbatim>\<open>#activities-list\<close> and of
  the \<^verbatim>\<open>#activity\<close> select, the text and class list of \<^verbatim>\<open>#message\<close>, the
  pending \<^verbatim>\<open>setTimeout\<close> callbacks by the time (in milliseconds) they are due, the
  clock, the lines written with \<^verbatim>\<open>console.error\<close>, the HTTP requests issued so far
  (\<open>Post_signup activity email\<close> is \<^verbatim>\<open>POST /activities/{activity}/signup?email={email}\<close>,
  both parts URL-encoded), and how often the signup form was reset. Only elements of the
  activity list carry \<^verbatim>\<open>data-activity-name\<close>, so \<^verbatim>\<open>document.querySelector\<close>
  for that attribute searches the list.
\<close>

record page =
  activitiesList :: "node list"
  activitySelect :: "node list"
  message_text :: string
  message_class :: "string list"
  timers :: "nat list"
  now :: nat
  console :: "string list"
  requests :: "request list"
  form_resets :: nat

definition console_error :: "string \<Rightarrow> page \<Rightarrow> page" where
  "console_error line s = s\<lparr>console := console s @ [line]\<rparr>"

definition send :: "request \<Rightarrow> page \<Rightarrow> page" where
  "send r s = s\<lparr>requests := requests s @ [r]\<rparr>"

subsection \<open>showMessage\<close>

definition showMessage :: "string \<Rightarrow> string \<Rightarrow> page \<Rightarrow> page" where
  "showMessage text type s =
     s\<lparr>message_text := text,
       message_class := removeAll ''hidden'' (class_tokens type),
       timers := timers s @ [now s + 5000]\<rparr>"

text \<open>The timer's callback: \<^verbatim>\<open>messageDiv.classList.add("hidden")\<close>.\<close>

definition hide_message :: "page \<Rightarrow> page" where
  "hide_message s =
     (if ''hidden'' \<in> set (message_class s) then s
      else s\<lparr>message_class := message_class s @ [''hidden'']\<rparr>)"

text \<open>
  \<open>advance d\<close> lets \<open>d\<close> milliseconds pass with no other event: every pending callback
  that is due by then runs, in the order the timers were set. A browser runs a callback
  no earlier than it is due; the model runs it when it is due.
\<close>

definition advance :: "nat \<Rightarrow> page \<Rightarrow> page" where
  "advance d s =
     (let t = now s + d
      in fold (\<lambda>u. hide_message) (filter (\<lambda>u. u \<le> t) (timers s))
           (s\<lparr>now := t, timers := filter (\<lambda>u. t < u) (timers s)\<rparr>))"

definition message_visible :: "page \<Rightarrow> bool" where
  "message_visible s = (''hidden'' \<notin> set (message_class s))"

subsection \<open>fetchActivities\<close>

text \<open>The body of the \<^verbatim>\<open>forEach\<close> over \<^verbatim>\<open>Object.entries(activities)\<close>.\<close>

definition add_activity :: "string \<times> activity \<Rightarrow> page \<Rightarrow> page" where
  "add_activity entry s =
     (case entry of (name, details) \<Rightarrow>
        s\<lparr>activitiesList := activitiesList s @ [activity_card name details],
          activitySelect := activitySelect s @ [select_option name]\<rparr>)"

definition fetchActivities :: "catalog fetched \<Rightarrow> page \<Rightarrow> page" where
  "fetchActivities response s =
     (let s1 = send Get_activities s
      in case response of
           Json activities \<Rightarrow> fold add_activity activities (s1\<lparr>activitiesList := []\<rparr>)
         | _ \<Rightarrow> console_error ''Error fetching activities:''
                 (s1\<lparr>activitiesList := [failure_paragraph]\<rparr>))"

subsection \<open>updateActivityCard\<close>

text \<open>
  The selector is the text \<^verbatim>\<open>[data-activity-name="\<close> \<open>@ activityName @\<close> \<^verbatim>\<open>"]\<close>.
  For a name without a double quote, a backslash, a line break or a NUL character this
  is the attribute selector for exactly that value, and the query returns the first
  element of the list that carries it. Any other name changes what the text means to the
  CSS parser: a quote ends the string early and what follows is read as selector text
  (a further selector of a list, or no valid selector at all), a backslash starts an
  escape. What the browser's selector engine answers for such a text is an argument of
  the model, \<open>answer\<close>: the text is no valid selector, no element matches, or the
  place in the activity list of the first element that matches (a place that holds no
  element counts as no match). For a name that is \<open>selector_safe\<close> the argument is not
  read. A text that selects an element outside the activity list is outside the model,
  as the host page is.
\<close>

datatype selection = Invalid_selector | No_match | Match "nat list"

datatype js_error = TypeError | SyntaxError

definition selector_safe :: "string \<Rightarrow> bool" where
  "selector_safe name =
     (\<forall>c \<in> set name. c \<noteq> CHR 0x22 \<and> c \<noteq> CHR 0x5C \<and> c \<noteq> CHR 0x0A
        \<and> c \<noteq> CHR 0x0C \<and> c \<noteq> CHR 0x0D \<and> c \<noteq> CHR 0x00)"

definition is_card :: "string \<Rightarrow> node \<Rightarrow> bool" where
  "is_card name = has_attr_value ''data-activity-name'' name"

definition selector_text :: "string \<Rightarrow> string" where
  "selector_text activityName =
     ''[data-activity-name='' @ [CHR 0x22] @ activityName @ [CHR 0x22] @ '']''"

definition document_querySelector ::
  "selection \<Rightarrow> string \<Rightarrow> page \<Rightarrow> js_error + node option" where
  "document_querySelector answer activityName s =
     (if selector_safe activityName then Inr (query (is_card activityName) (activitiesList s))
      else (case answer of
              Invalid_selector \<Rightarrow> Inl SyntaxError
            | No_match \<Rightarrow> Inr None
            | Match p \<Rightarrow> Inr (element_at p (activitiesList s))))"

text \<open>
  The \<^verbatim>\<open>try\<close> block after the response was parsed. It returns, or it throws with the
  page as it is at that moment.
\<close>

datatype outcome = Returned page | Thrown js_error page

text \<open>
  The code holds a reference to the element the query returned and writes to it.
  \<open>replace_card\<close> gives that element its new content: the element is found again, on
  the same list, the way \<open>document_querySelector\<close> found it.
\<close>

definition replace_card :: "selection \<Rightarrow> string \<Rightarrow> node \<Rightarrow> page \<Rightarrow> page" where
  "replace_card answer activityName newCard s =
     s\<lparr>activitiesList :=
         (if selector_safe activityName
          then modify (is_card activityName) (\<lambda>old. newCard) (activitiesList s)
          else (case answer of
                  Match p \<Rightarrow> update_at p (\<lambda>old. newCard) (activitiesList s)
                | _ \<Rightarrow> activitiesList s))\<rparr>"

definition patch_availability :: "int \<Rightarrow> node \<Rightarrow> node" where
  "patch_availability spotsLeft existingCard =
     (case query (has_class ''availability'') (kids existingCard) of
        None \<Rightarrow> existingCard
      | Some availabilityParagraph \<Rightarrow>
          set_kids (modify (has_class ''availability'')
                      (set_kids (availability_content spotsLeft)) (kids existingCard))
            existingCard)"

definition patch_participants :: "string \<Rightarrow> activity \<Rightarrow> node \<Rightarrow> node" where
  "patch_participants activityName details existingCard =
     set_kids (modify (has_class ''participants-section'')
                 (set_kids (participants_content activityName details)) (kids existingCard))
       existingCard"

definition update_try :: "selection \<Rightarrow> string \<Rightarrow> catalog \<Rightarrow> page \<Rightarrow> outcome" where
  "update_try answer activityName activities s =
     (case js_get activities activityName of
        Undefined \<Rightarrow> Returned (console_error (''Activity '' @ activityName @ '' not found'') s)
      | found \<Rightarrow>
          (case document_querySelector answer activityName s of
             Inl e \<Rightarrow> Thrown e s
           | Inr None \<Rightarrow>
               Returned (console_error (''Card for '' @ activityName @ '' not found'') s)
           | Inr (Some existingCard) \<Rightarrow>
               (case found of
                  Own details \<Rightarrow>
                    (let card1 = patch_availability (spots_left details) existingCard
                     in case query (has_class ''participants-section'') (kids card1) of
                          None \<Rightarrow> Thrown TypeError (replace_card answer activityName card1 s)
                        | Some participantsSection \<Rightarrow>
                            Returned (replace_card answer activityName
                              (patch_participants activityName details card1) s))
                | _ \<Rightarrow> Thrown TypeError s)))"

text \<open>
  \<open>response\<close> is what the function's own request resolves to, \<open>fallback\<close> what the
  request of the \<^verbatim>\<open>fetchActivities\<close> call in the \<^verbatim>\<open>catch\<close> block resolves to.
\<close>

definition update_catch :: "catalog fetched \<Rightarrow> page \<Rightarrow> page" where
  "update_catch fallback s =
     fetchActivities fallback (console_error ''Error updating activity card:'' s)"

definition updateActivityCard ::
  "selection \<Rightarrow> string \<Rightarrow> catalog fetched \<Rightarrow> catalog fetched \<Rightarrow> page \<Rightarrow> page" where
  "updateActivityCard answer activityName response fallback s =
     (let s1 = send Get_activities s
      in case response of
           Json activities \<Rightarrow>
             (case update_try answer activityName activities s1 of
                Returned s2 \<Rightarrow> s2
              | Thrown e s2 \<Rightarrow> update_catch fallback s2)
         | _ \<Rightarrow> update_catch fallback s1)"

subsection \<open>The submit handler and the click handler\<close>

definition signup_submit ::
  "selection \<Rightarrow> string \<Rightarrow> string \<Rightarrow> reply fetched \<Rightarrow> catalog fetched \<Rightarrow> catalog fetched
     \<Rightarrow> page \<Rightarrow> page" where
  "signup_submit answer email activity response refresh fallback s =
     (let s1 = send (Post_signup activity email) s
      in case response of
           Json result \<Rightarrow>
             (if reply_ok result
              then updateActivityCard answer activity refresh fallback
                     ((showMessage (dom_string (reply_message result)) ''success'' s1)
                        \<lparr>form_resets := Suc (form_resets s1)\<rparr>)
              else showMessage (detail_or_default result) ''error'' s1)
         | _ \<Rightarrow> console_error ''Error signing up:''
                 (showMessage ''Failed to sign up. Please try again.'' ''error'' s1))"

text \<open>
  \<open>target\<close> is the clicked element, \<open>confirm\<close> the user's answer to the prompt with the
  given text. On success the card update is started before the message is shown; the
  two write different parts of the page.
\<close>

definition confirmation_message :: "string \<Rightarrow> string \<Rightarrow> string" where
  "confirmation_message email activity =
     ''Remove participant '' @ [CHR 0x22] @ email @ [CHR 0x22] @ '' from activity ''
       @ [CHR 0x22] @ activity @ [CHR 0x22] @ ''?''"

definition remove_click ::
  "selection \<Rightarrow> node \<Rightarrow> (string \<Rightarrow> bool) \<Rightarrow> reply fetched \<Rightarrow> catalog fetched
     \<Rightarrow> catalog fetched \<Rightarrow> page \<Rightarrow> page" where
  "remove_click answer target confirm response refresh fallback s =
     (if has_class ''remove-participant-btn'' target
      then (let activity = template_string (get_attr target ''data-activity'');
                email = template_string (get_attr target ''data-email'')
            in if \<not> confirm (confirmation_message email activity) then s
               else (let s1 = send (Delete_unregister activity email) s
                     in case response of
                          Json result \<Rightarrow>
                            (if reply_ok result
                             then showMessage (dom_string (reply_message result)) ''success''
                                    (updateActivityCard answer activity refresh fallback s1)
                             else showMessage (detail_or_default result) ''error'' s1)
                        | _ \<Rightarrow> console_error ''Error removing participant:''
                                (showMessage ''Failed to remove participant. Please try again.''
                                   ''error'' s1)))
      else s)"

subsection \<open>What a subtree shows\<close>

text \<open>
  Two readings of a subtree, used to say where the server's strings end up: the contents
  of its text nodes in tree order, and its element structure (every element with its tag
  and the names of its attributes, without text nodes and attribute values).
\<close>

fun texts_node :: "node \<Rightarrow> string list"
  and texts :: "node list \<Rightarrow> string list" where
  "texts_node (Text t) = [t]"
| "texts_node (Element tg as ks) = texts ks"
| "texts [] = []"
| "texts (n # ns) = texts_node n @ texts ns"

fun skeleton_node :: "node \<Rightarrow> node list"
  and skeleton :: "node list \<Rightarrow> node list" where
  "skeleton_node (Text t) = []"
| "skeleton_node (Element tg as ks) = [Element tg (map (\<lambda>(k, v). (k, [])) as) (skeleton ks)]"
| "skeleton [] = []"
| "skeleton (n # ns) = skeleton_node n @ skeleton ns"

subsection \<open>Example data\<close>

text \<open>
  Concrete inputs for the instances below: the catalog of the spec's example, a host
  page before the script ran, and that page after one load of the catalog.
\<close>

definition chess_club :: activity where
  "chess_club =
     \<lparr>description = ''Learn strategies and compete in chess tournaments'',
      schedule = ''Fridays, 3:30 PM - 5:00 PM'',
      max_participants = 10,
      participants = [''a@x.com'']\<rparr>"

definition art_club :: activity where
  "art_club =
     \<lparr>description = ''Explore painting and drawing'',
      schedule = ''Thursdays, 3:30 PM - 5:00 PM'',
      max_participants = 2,
      participants = []\<rparr>"

definition demo_catalog :: catalog where
  "demo_catalog = [(''Chess Club'', chess_club), (''Art Club'', art_club)]"

definition host_page :: page where
  "host_page =
     \<lparr>activitiesList = [Element ''p'' [] [Text ''Loading activities...'']],
      activitySelect = [Element ''option'' [(''value'', [])] [Text ''-- Select an activity --'']],
      message_text = [],
      message_class = [''hidden''],
      timers = [],
      now = 0,
      console = [],
      requests = [],
      form_resets = 0\<rparr>"

definition loaded_page :: page where
  "loaded_page = fetchActivities (Json demo_catalog) host_page"

definition chess_remove_button :: node where
  "chess_remove_button =
     Element ''button''
       [(''class'', ''remove-participant-btn''),
        (''data-activity'', ''Chess Club''),
        (''data-email'', ''a@x.com''),
        (''aria-label'', ''Remove a@x.com from Chess Club'')]
       [Text wastebasket]"

text \<open>An answer to \<^verbatim>\<open>confirm\<close>: Cancel for the prompt of that button, OK for any other.\<close>

definition decline_chess_removal :: "string \<Rightarrow> bool" where
  "decline_chess_removal prompt =
     (prompt \<noteq> ''Remove participant '' @ [CHR 0x22] @ ''a@x.com'' @ [CHR 0x22]
        @ '' from activity '' @ [CHR 0x22] @ ''Chess Club'' @ [CHR 0x22] @ ''?'')"

text \<open>
  A catalog with an activity named like a member of \<^verbatim>\<open>Object.prototype\<close>, the
  catalog after the server dropped that activity, and the page loaded from the first.
\<close>

definition removed_catalog :: catalog where
  "removed_catalog = [(''constructor'', art_club), (''Chess Club'', chess_club)]"

definition chess_only :: catalog where
  "chess_only = [(''Chess Club'', chess_club)]"

definition constructor_page :: page where
  "constructor_page = fetchActivities (Json removed_catalog) host_page"

text \<open>What the server reports for the chess club after a second signup.\<close>

definition chess_club_later :: activity where
  "chess_club_later =
     \<lparr>description = ''Renamed on the server'',
      schedule = ''Moved to Mondays'',
      max_participants = 12,
      participants = [''a@x.com'', ''b@x.com'']\<rparr>"

text \<open>Pages whose only card lacks the availability paragraph, or the participants section.\<close>

definition section_only_page :: page where
  "section_only_page =
     host_page\<lparr>activitiesList :=
       [Element ''div'' [(''data-activity-name'', ''Chess Club'')]
          [Element ''div'' [(''class'', ''participants-section'')] [Text ''stale'']]]\<rparr>"

definition availability_only_page :: page where
  "availability_only_page =
     host_page\<lparr>activitiesList :=
       [Element ''div'' [(''data-activity-name'', ''Chess Club'')]
          [Element ''p'' [(''class'', ''availability'')] [Text ''stale'']]]\<rparr>"

text \<open>
  A name with a double quote in it. Spliced into the selector it gives the selector list
  \<^verbatim>\<open>[data-activity-name="x"],[data-activity-name="Chess Club"]\<close>, which selects the
  first element that carries the name \<^verbatim>\<open>x\<close> or the name \<^verbatim>\<open>Chess Club\<close>.
  With it: an activity of that name, what the server reports for it after a signup, and
  the page loaded with it and the chess club.
\<close>

definition spliced_name :: string where
  "spliced_name = ''x'' @ [CHR 0x22] @ ''],[data-activity-name='' @ [CHR 0x22] @ ''Chess Club''"

definition spliced_club :: activity where
  "spliced_club =
     \<lparr>description = ''An activity with a quote in its name'',
      schedule = ''Mondays'',
      max_participants = 2,
      participants = []\<rparr>"

definition spliced_club_later :: activity where
  "spliced_club_later = spliced_club\<lparr>participants := [''z@x.com'']\<rparr>"

definition spliced_page :: page where
  "spliced_page =
     fetchActivities (Json [(spliced_name, spliced_club), (''Chess Club'', chess_club)]) host_page"

text \<open>An activity whose strings are HTML markup, and the page loaded with it.\<close>

definition markup_club :: activity where
  "markup_club =
     \<lparr>description = ''<script>alert(1)</script>'',
      schedule = ''<i>Fridays</i>'',
      max_participants = 10,
      participants = [''<img src=x onerror=alert(1)>'']\<rparr>"

definition markup_page :: page where
  "markup_page = fetchActivities (Json [(''<b>Chess</b>'', markup_club)]) host_page"

section \<open>Facts about the embedding\<close>

subsection \<open>Queries on elements\<close>

lemma has_class_Text [simp]: "has_class c (Text t) = False"
  by (simp add: has_class_def class_list_def get_attr_def)

lemma has_class_Element:
  "has_class c (Element tg as ks) =
     (case map_of as ''class'' of None \<Rightarrow> False | Some v \<Rightarrow> c \<in> set (class_tokens v))"
  by (simp add: has_class_def class_list_def get_attr_def split: option.splits)

lemma is_card_Text [simp]: "is_card k (Text t) = False"
  by (simp add: is_card_def has_attr_value_def get_attr_def)

lemma is_card_Element:
  "is_card k (Element tg as ks) = (map_of as ''data-activity-name'' = Some k)"
  by (simp add: is_card_def has_attr_value_def get_attr_def)

lemma query_append:
  "query P (xs @ ys) = (case query P xs of Some r \<Rightarrow> Some r | None \<Rightarrow> query P ys)"
  by (induction xs) (auto split: option.splits)

lemma query_text_content [simp]: "query P (text_content t) = None"
  by (simp add: text_content_def)

lemma tokens_availability: "class_tokens ''availability'' = [''availability'']"
  by (simp add: class_tokens_def ascii_whitespace_def)

lemma tokens_participants_section:
  "class_tokens ''participants-section'' = [''participants-section'']"
  by (simp add: class_tokens_def ascii_whitespace_def)

lemma tokens_participants_list: "class_tokens ''participants-list'' = [''participants-list'']"
  by (simp add: class_tokens_def ascii_whitespace_def)

lemma tokens_no_participants: "class_tokens ''no-participants'' = [''no-participants'']"
  by (simp add: class_tokens_def ascii_whitespace_def)

lemma tokens_remove_btn:
  "class_tokens ''remove-participant-btn'' = [''remove-participant-btn'']"
  by (simp add: class_tokens_def ascii_whitespace_def)

lemma tokens_activity_card: "class_tokens ''activity-card'' = [''activity-card'']"
  by (simp add: class_tokens_def ascii_whitespace_def)

lemmas tokens_simps = tokens_availability tokens_participants_section tokens_participants_list
  tokens_no_participants tokens_remove_btn tokens_activity_card

subsection \<open>Queries on a rendered list\<close>

lemma query_is_card_items: "query (is_card k) (map (participant_item n) es) = None"
  by (induction es) (simp_all add: participant_item_def is_card_Element query_append)

lemma query_is_card_kids: "query (is_card k) (kids (activity_card n d)) = None"
  by (simp add: activity_card_def card_title_def card_description_def card_schedule_def
      card_availability_def card_participants_def availability_content_def
      participants_content_def is_card_Element query_is_card_items)

lemma query_node_is_card:
  "query_node (is_card k) (activity_card n d) = (if n = k then Some (activity_card n d) else None)"
  using query_is_card_kids [of k n d] by (simp add: activity_card_def is_card_Element)

lemma query_is_card_rendered:
  "query (is_card k) (map (\<lambda>(n, d). activity_card n d) c) = map_option (activity_card k) (map_of c k)"
  by (induction c) (auto simp: query_node_is_card)

lemma modify_node_is_card:
  "modify_node (is_card k) f (activity_card k d) = f (activity_card k d)"
  by (simp add: activity_card_def is_card_Element)

lemma modify_is_card_absent:
  "k \<notin> fst ` set c \<Longrightarrow>
     modify (is_card k) f (map (\<lambda>(n, d). activity_card n d) c) = map (\<lambda>(n, d). activity_card n d) c"
  by (induction c) (auto simp: query_node_is_card)

lemma modify_is_card_rendered:
  "distinct (map fst c) \<Longrightarrow>
     modify (is_card k) f (map (\<lambda>(n, d). activity_card n d) c) =
       map (\<lambda>(n, d). if n = k then f (activity_card n d) else activity_card n d) c"
proof (induction c)
  case Nil
  then show ?case by simp
next
  case (Cons e c)
  obtain n d where e: "e = (n, d)" by (cases e)
  show ?case
  proof (cases "n = k")
    case True
    with Cons.prems e have "k \<notin> fst ` set c" by auto
    then have "map (\<lambda>(n, d). if n = k then f (activity_card n d) else activity_card n d) c =
        map (\<lambda>(n, d). activity_card n d) c"
      by (auto simp: image_iff)
    with True e show ?thesis
      by (simp add: query_node_is_card modify_node_is_card)
  next
    case False
    with Cons e show ?thesis by (simp add: query_node_is_card)
  qed
qed

lemma query_items_class:
  "c \<noteq> ''remove-participant-btn'' \<Longrightarrow> query (has_class c) (map (participant_item n) es) = None"
  by (induction es) (simp_all add: participant_item_def has_class_Element query_append tokens_simps)

lemma query_availability_kids:
  "query (has_class ''availability'') (kids (activity_card n d)) = Some (card_availability d)"
  by (simp add: activity_card_def card_title_def card_description_def card_schedule_def
      card_availability_def has_class_Element tokens_simps)

lemma replace_card_safe:
  "selector_safe name \<Longrightarrow>
     replace_card answer name c s =
       s\<lparr>activitiesList := modify (is_card name) (\<lambda>old. c) (activitiesList s)\<rparr>"
  by (simp add: replace_card_def)

lemma patch_availability_card:
  "patch_availability sl (activity_card n d) =
     Element ''div'' [(''class'', ''activity-card''), (''data-activity-name'', n)]
       [card_title n, card_description d, card_schedule d,
        Element ''p'' [(''class'', ''availability'')] (availability_content sl),
        card_participants n d]"
  by (simp add: patch_availability_def query_availability_kids)
    (simp add: activity_card_def card_title_def card_description_def card_schedule_def
      card_availability_def has_class_Element tokens_simps)

lemma query_section_patched:
  "query (has_class ''participants-section'') (kids (patch_availability sl (activity_card n d))) =
     Some (card_participants n d)"
  by (simp add: patch_availability_card)
    (simp add: card_title_def card_description_def card_schedule_def card_participants_def
      availability_content_def has_class_Element tokens_simps)

lemma patch_participants_card:
  "patch_participants n d1 (patch_availability (spots_left d1) (activity_card n d)) =
     Element ''div'' [(''class'', ''activity-card''), (''data-activity-name'', n)]
       [card_title n, card_description d, card_schedule d, card_availability d1,
        card_participants n d1]"
  by (simp add: patch_availability_card patch_participants_def)
    (simp add: card_title_def card_description_def card_schedule_def card_participants_def
      card_availability_def availability_content_def has_class_Element tokens_simps)

lemma update_try_rendered:
  assumes "selector_safe name"
    and "activitiesList s = map (\<lambda>(n, d). activity_card n d) shown"
    and "distinct (map fst shown)"
    and "map_of shown name = Some d0"
    and "map_of activities name = Some d1"
  shows "update_try answer name activities s =
           Returned (s\<lparr>activitiesList :=
             map (\<lambda>(n, d).
                    if n = name
                    then Element ''div'' [(''class'', ''activity-card''), (''data-activity-name'', n)]
                           [card_title n, card_description d, card_schedule d,
                            card_availability d1, card_participants n d1]
                    else activity_card n d) shown\<rparr>)"
proof -
  have q: "document_querySelector answer name s = Inr (Some (activity_card name d0))"
    using assms by (simp add: document_querySelector_def query_is_card_rendered)
  have m: "modify (is_card name) (\<lambda>old. c) (activitiesList s) =
      map (\<lambda>(n, d). if n = name then c else activity_card n d) shown" for c
    using assms by (simp add: modify_is_card_rendered)
  have "update_try answer name activities s =
      Returned (replace_card answer name
        (patch_participants name d1 (patch_availability (spots_left d1) (activity_card name d0))) s)"
    using assms(5) by (simp add: update_try_def js_get_def q Let_def query_section_patched)
  also have "replace_card answer name
        (patch_participants name d1 (patch_availability (spots_left d1) (activity_card name d0))) s =
      s\<lparr>activitiesList :=
             map (\<lambda>(n, d).
                    if n = name
                    then Element ''div'' [(''class'', ''activity-card''), (''data-activity-name'', n)]
                           [card_title n, card_description d, card_schedule d,
                            card_availability d1, card_participants n d1]
                    else activity_card n d) shown\<rparr>"
  proof -
    have "map (\<lambda>(n, d). if n = name
            then patch_participants name d1 (patch_availability (spots_left d1) (activity_card name d0))
            else activity_card n d) shown =
          map (\<lambda>(n, d).
                    if n = name
                    then Element ''div'' [(''class'', ''activity-card''), (''data-activity-name'', n)]
                           [card_title n, card_description d, card_schedule d,
                            card_availability d1, card_participants n d1]
                    else activity_card n d) shown"
    proof (rule map_cong [OF refl])
      fix e assume e: "e \<in> set shown"
      obtain n d where nd: "e = (n, d)" by (cases e)
      have "n = name \<Longrightarrow> d = d0"
        using e nd assms(3,4) by (auto dest: map_of_SomeD simp: eq_key_imp_eq_value)
      then show "(case e of (n, d) \<Rightarrow> if n = name
            then patch_participants name d1 (patch_availability (spots_left d1) (activity_card name d0))
            else activity_card n d) =
          (case e of (n, d) \<Rightarrow>
                    if n = name
                    then Element ''div'' [(''class'', ''activity-card''), (''data-activity-name'', n)]
                           [card_title n, card_description d, card_schedule d,
                            card_availability d1, card_participants n d1]
                    else activity_card n d)"
        by (auto simp: nd patch_participants_card)
    qed
    then show ?thesis using assms(1) by (simp add: replace_card_safe m)
  qed
  finally show ?thesis .
qed

subsection \<open>A patch does not create a participants section\<close>

lemma query_None_modify_aux:
  "(\<forall>n. query_node P n = None \<longrightarrow> query_node P (f n) = None) \<Longrightarrow>
   (\<forall>tg as ks ks'. P (Element tg as ks) = P (Element tg as ks')) \<Longrightarrow>
   query_node P n = None \<Longrightarrow> query_node P (modify_node Q f n) = None"
  "(\<forall>n. query_node P n = None \<longrightarrow> query_node P (f n) = None) \<Longrightarrow>
   (\<forall>tg as ks ks'. P (Element tg as ks) = P (Element tg as ks')) \<Longrightarrow>
   query P ns = None \<Longrightarrow> query P (modify Q f ns) = None"
proof (induction Q f n and Q f ns rule: modify_node_modify.induct)
  case (1 Q f t)
  then show ?case by simp
next
  case (2 Q f tg as ks)
  show ?case
  proof (cases "Q (Element tg as ks)")
    case True
    with "2.prems" show ?thesis by simp
  next
    case False
    from "2.prems" have "\<not> P (Element tg as ks)" and "query P ks = None"
      by (auto split: if_splits)
    moreover from "2.prems" have "P (Element tg as (modify Q f ks)) = P (Element tg as ks)"
      by blast
    ultimately show ?thesis using False "2.IH" "2.prems" by simp
  qed
next
  case (3 Q f)
  then show ?case by simp
next
  case (4 Q f n ns)
  from "4.prems" have n: "query_node P n = None" and ns: "query P ns = None"
    by (auto split: option.splits)
  show ?case
  proof (cases "query_node Q n")
    case None
    with "4.IH" "4.prems" n ns show ?thesis by simp
  next
    case (Some r)
    with "4.IH" "4.prems" n ns show ?thesis by simp
  qed
qed

lemma query_None_modify:
  assumes "\<And>n. query_node P n = None \<Longrightarrow> query_node P (f n) = None"
    and "\<And>tg as ks ks'. P (Element tg as ks) = P (Element tg as ks')"
    and "query P ns = None"
  shows "query P (modify Q f ns) = None"
  using assms by (intro query_None_modify_aux(2)) auto

lemma query_node_set_kids_None:
  "query_node (has_class c) n = None \<Longrightarrow> query (has_class c) new = None \<Longrightarrow>
     query_node (has_class c) (set_kids new n) = None"
  by (cases n) (auto simp: has_class_Element split: if_splits)

lemma query_section_availability_content:
  "query (has_class ''participants-section'') (availability_content sl) = None"
  by (simp add: availability_content_def has_class_Element)

lemma patch_availability_keeps_missing_section:
  assumes "query (has_class ''participants-section'') (kids existingCard) = None"
  shows "query (has_class ''participants-section'') (kids (patch_availability sl existingCard)) = None"
proof (cases existingCard)
  case (Text t)
  then show ?thesis by (simp add: patch_availability_def split: option.splits)
next
  case (Element tg as ks)
  with assms have "query (has_class ''participants-section'')
      (modify (has_class ''availability'') (set_kids (availability_content sl)) ks) = None"
    by (intro query_None_modify)
      (simp_all add: query_node_set_kids_None query_section_availability_content
        has_class_Element)
  with assms Element show ?thesis by (simp add: patch_availability_def split: option.splits)
qed

subsection \<open>Loading and timers\<close>

lemma fold_add_activity:
  "fold add_activity c s =
     s\<lparr>activitiesList := activitiesList s @ map (\<lambda>(n, d). activity_card n d) c,
       activitySelect := activitySelect s @ map (\<lambda>(n, d). select_option n) c\<rparr>"
  by (induction c arbitrary: s) (auto simp: add_activity_def)

lemma fetchActivities_Json:
  "fetchActivities (Json c) s =
     s\<lparr>activitiesList := map (\<lambda>(n, d). activity_card n d) c,
       activitySelect := activitySelect s @ map (\<lambda>(n, d). select_option n) c,
       requests := requests s @ [Get_activities]\<rparr>"
  by (simp add: fetchActivities_def send_def fold_add_activity)

lemma requests_fetchActivities:
  "requests (fetchActivities response s) = requests s @ [Get_activities]"
  by (cases response) (simp_all add: fetchActivities_def send_def fold_add_activity console_error_def)

lemma message_class_fold_hide:
  "message_class (fold (\<lambda>u. hide_message) us s) =
     (if us = [] \<or> ''hidden'' \<in> set (message_class s) then message_class s
      else message_class s @ [''hidden''])"
  by (induction us arbitrary: s) (auto simp: hide_message_def)

lemma message_visible_advance:
  "message_visible (advance d s) =
     (message_visible s \<and> (\<forall>u \<in> set (timers s). now s + d < u))"
  by (auto simp: message_visible_def advance_def Let_def message_class_fold_hide
      filter_empty_conv not_le)

subsection \<open>Cards and options per key\<close>

lemma is_card_activity_card [simp]: "is_card k (activity_card n d) = (n = k)"
  by (simp add: activity_card_def is_card_Element)

lemma option_value [simp]: "has_attr_value ''value'' k (select_option n) = (n = k)"
  by (simp add: select_option_def has_attr_value_def get_attr_def)

lemma one_entry_per_key:
  "distinct (map fst c) \<Longrightarrow> (k, d) \<in> set c \<Longrightarrow> length (filter (\<lambda>(n, d). n = k) c) = 1"
proof (induction c)
  case Nil
  then show ?case by simp
next
  case (Cons e c)
  obtain n d' where e: "e = (n, d')" by (cases e)
  show ?case
  proof (cases "n = k")
    case True
    with Cons.prems e have "k \<notin> fst ` set c" by auto
    then have "filter (\<lambda>(n, d). n = k) c = []"
      by (auto simp: filter_empty_conv image_iff)
    with True e show ?thesis by simp
  next
    case False
    with Cons e show ?thesis by auto
  qed
qed

lemma filter_cards:
  "filter (is_card k) (map (\<lambda>(n, d). activity_card n d) c) =
     map (\<lambda>(n, d). activity_card n d) (filter (\<lambda>(n, d). n = k) c)"
  by (induction c) auto

lemma filter_options:
  "filter (has_attr_value ''value'' k) (map (\<lambda>(n, d). select_option n) c) =
     map (\<lambda>(n, d). select_option n) (filter (\<lambda>(n, d). n = k) c)"
  by (induction c) auto

lemma availability_shown:
  "query (has_class ''availability'') (kids (activity_card name details)) =
     Some (Element ''p'' [(''class'', ''availability'')]
             [Element ''strong'' [] [Text ''Availability:''],
              Text ('' '' @ number_to_string
                     (max_participants details - int (length (participants details)))
                   @ '' spots left'')])"
  by (simp add: query_availability_kids card_availability_def availability_content_def
      spots_left_def text_content_def)

lemma loaded_page_list:
  "activitiesList loaded_page = map (\<lambda>(n, d). activity_card n d) demo_catalog"
  by (simp add: loaded_page_def fetchActivities_Json)

subsection \<open>Text nodes and element structure of a card\<close>

lemma texts_append [simp]: "texts (xs @ ys) = texts xs @ texts ys"
  by (induction xs) simp_all

lemma skeleton_append [simp]: "skeleton (xs @ ys) = skeleton xs @ skeleton ys"
  by (induction xs) simp_all

lemma skeleton_text_content [simp]: "skeleton (text_content t) = []"
  by (simp add: text_content_def)

lemma texts_items:
  "texts (map (participant_item n) es) =
     concat (map (\<lambda>email. texts (text_content email) @ [wastebasket]) es)"
  by (induction es) (simp_all add: participant_item_def text_content_def wastebasket_def)

lemma skeleton_items:
  "skeleton (map (participant_item n) es) =
     replicate (length es)
       (Element ''li'' []
          [Element ''button''
             [(''class'', []), (''data-activity'', []), (''data-email'', []), (''aria-label'', [])]
             []])"
  by (induction es) (simp_all add: participant_item_def)

lemma texts_activity_card:
  "texts_node (activity_card name details) =
     texts (text_content name) @ texts (text_content (description details)) @
     [''Schedule:'', '' '' @ schedule details,
      ''Availability:'', '' '' @ number_to_string (spots_left details) @ '' spots left'',
      ''Participants:''] @
     (if participants details = [] then [''No participants yet. Be the first to sign up!'']
      else concat (map (\<lambda>email. texts (text_content email) @ [wastebasket])
                     (participants details)))"
  by (simp add: activity_card_def card_title_def card_description_def card_schedule_def
      card_availability_def card_participants_def availability_content_def
      participants_content_def texts_items)
    (simp add: text_content_def)

lemma skeleton_activity_card:
  "length (participants details) = length (participants details') \<Longrightarrow>
     skeleton_node (activity_card name details) = skeleton_node (activity_card name' details')"
  by (simp add: activity_card_def card_title_def card_description_def card_schedule_def
      card_availability_def card_participants_def availability_content_def
      participants_content_def skeleton_items)

lemma skeleton_rendered:
  "map (\<lambda>(n, d). length (participants d)) c = map (\<lambda>(n, d). length (participants d)) c' \<Longrightarrow>
     skeleton (map (\<lambda>(n, d). activity_card n d) c) = skeleton (map (\<lambda>(n, d). activity_card n d) c')"
proof (induction c arbitrary: c')
  case Nil
  then show ?case by simp
next
  case (Cons e c)
  then obtain e' c'' where c': "c' = e' # c''" by (cases c') auto
  obtain n d n' d' where e: "e = (n, d)" "e' = (n', d')" by (cases e, cases e')
  from Cons.prems c' e have "length (participants d) = length (participants d')"
    and "map (\<lambda>(n, d). length (participants d)) c = map (\<lambda>(n, d). length (participants d)) c''"
    by simp_all
  with Cons.IH [of c''] skeleton_activity_card [of d d' n n'] c' e show ?case
    by simp
qed

lemma hybrid_card:
  "Element ''div'' [(''class'', ''activity-card''), (''data-activity-name'', n)]
     [card_title n, card_description d, card_schedule d, card_availability d1,
      card_participants n d1] =
   activity_card n (d\<lparr>max_participants := max_participants d1, participants := participants d1\<rparr>)"
  by (simp add: activity_card_def card_description_def card_schedule_def card_availability_def
      card_participants_def spots_left_def participants_content_def)

lemma update_rendered_list:
  assumes "selector_safe name"
    and "activitiesList s = map (\<lambda>(n, d). activity_card n d) shown"
    and "distinct (map fst shown)"
    and "map_of shown name = Some d0"
    and "map_of activities name = Some d1"
  shows "activitiesList (updateActivityCard answer name (Json activities) fallback s) =
           map (\<lambda>(n, d). activity_card n
                  (if n = name
                   then d\<lparr>max_participants := max_participants d1, participants := participants d1\<rparr>
                   else d)) shown"
proof -
  have "update_try answer name activities (send Get_activities s) =
      Returned ((send Get_activities s)\<lparr>activitiesList :=
               map (\<lambda>(n, d).
                      if n = name
                      then Element ''div'' [(''class'', ''activity-card''), (''data-activity-name'', n)]
                             [card_title n, card_description d, card_schedule d,
                              card_availability d1, card_participants n d1]
                      else activity_card n d) shown\<rparr>)"
    using assms by (intro update_try_rendered) (simp_all add: send_def)
  then have "activitiesList (updateActivityCard answer name (Json activities) fallback s) =
      map (\<lambda>(n, d).
                      if n = name
                      then Element ''div'' [(''class'', ''activity-card''), (''data-activity-name'', n)]
                             [card_title n, card_description d, card_schedule d,
                              card_availability d1, card_participants n d1]
                      else activity_card n d) shown"
    by (simp add: updateActivityCard_def)
  also have "\<dots> = map (\<lambda>(n, d). activity_card n
                  (if n = name
                   then d\<lparr>max_participants := max_participants d1, participants := participants d1\<rparr>
                   else d)) shown"
    by (rule map_cong [OF refl]) (auto simp: hybrid_card)
  finally show ?thesis .
qed

lemma skeleton_refreshed:
  assumes "length (participants d1) = length (participants d1')"
  shows "skeleton (map (\<lambda>(n, d). activity_card n
                  (if n = name
                   then d\<lparr>max_participants := max_participants d1, participants := participants d1\<rparr>
                   else d)) shown) =
         skeleton (map (\<lambda>(n, d). activity_card n
                  (if n = name
                   then d\<lparr>max_participants := max_participants d1', participants := participants d1'\<rparr>
                   else d)) shown)"
proof (induction shown)
  case Nil
  then show ?case by simp
next
  case (Cons e shown)
  obtain n d where e: "e = (n, d)" by (cases e)
  have "skeleton_node (activity_card n
          (d\<lparr>max_participants := max_participants d1, participants := participants d1\<rparr>)) =
        skeleton_node (activity_card n
          (d\<lparr>max_participants := max_participants d1', participants := participants d1'\<rparr>))"
    using assms by (intro skeleton_activity_card) simp
  with Cons e show ?case by (cases "n = name") simp_all
qed

lemma activitiesList_fetchActivities:
  "activitiesList (fetchActivities (Json c) s) = map (\<lambda>(n, d). activity_card n d) c"
  by (simp add: fetchActivities_Json)

subsection \<open>A name spliced into the selector\<close>

lemma has_attr_value_Element:
  "has_attr_value k v (Element tg as ks) = (map_of as k = Some v)"
  by (simp add: has_attr_value_def get_attr_def)

lemma patch_participants_other_card:
  "patch_participants a d1 (patch_availability sl (activity_card n d)) =
     Element ''div'' [(''class'', ''activity-card''), (''data-activity-name'', n)]
       [card_title n, card_description d, card_schedule d,
        Element ''p'' [(''class'', ''availability'')] (availability_content sl),
        card_participants a d1]"
  by (simp add: patch_availability_card patch_participants_def)
    (simp add: card_title_def card_description_def card_schedule_def card_participants_def
      availability_content_def has_class_Element tokens_simps)

lemma spliced_name_unsafe: "\<not> selector_safe spliced_name"
  by (simp add: selector_safe_def spliced_name_def)

lemma query_items_either:
  "query (\<lambda>n. is_card a n \<or> is_card b n) (map (participant_item m) es) = None"
  by (induction es) (simp_all add: participant_item_def is_card_Element query_append)

lemma query_node_either:
  "query_node (\<lambda>n. is_card a n \<or> is_card b n) (activity_card n d) =
     (if n = a \<or> n = b then Some (activity_card n d) else None)"
  by (simp add: activity_card_def card_title_def card_description_def card_schedule_def
      card_availability_def card_participants_def availability_content_def
      participants_content_def is_card_Element query_items_either)

section \<open>The claims\<close>

text \<open>
  C1 fails on the code for every load after the first. \<^verbatim>\<open>fetchActivities\<close> clears
  the activity list before it appends the cards, but appends the options to the select
  without clearing it. After a second load of the same catalog there is still one card
  for the key \<^verbatim>\<open>Chess Club\<close>, but the select holds two options with that value.
\<close>

theorem fetchActivities_reload_two_options_per_key:
  "length (filter (is_card ''Chess Club'') (activitiesList loaded_page)) = 1
   \<and> length (filter (has_attr_value ''value'' ''Chess Club'') (activitySelect loaded_page)) = 1
   \<and> length (filter (is_card ''Chess Club'')
        (activitiesList (fetchActivities (Json demo_catalog) loaded_page))) = 1
   \<and> length (filter (has_attr_value ''value'' ''Chess Club'')
        (activitySelect (fetchActivities (Json demo_catalog) loaded_page))) = 2"
  by (simp add: loaded_page_def fetchActivities_Json demo_catalog_def host_page_def
      has_attr_value_Element)

text \<open>
  What a single load does produce: for a catalog (an object, so with each key once) the
  list becomes one card per entry and one option per entry is appended to the select.
  For every key, exactly one card of the list carries it, exactly one of the options
  appended by this call has it as value, the card found for the key is the one built
  from its entry, and the availability paragraph of that card reads
  \<open>max_participants - length participants\<close> followed by \<^verbatim>\<open>spots left\<close>.
\<close>

lemma fetchActivities_cards_and_appended_options:
  assumes "distinct (map fst activities)"
  shows "activitiesList (fetchActivities (Json activities) s) =
           map (\<lambda>(name, details). activity_card name details) activities
       \<and> activitySelect (fetchActivities (Json activities) s) =
           activitySelect s @ map (\<lambda>(name, details). select_option name) activities
       \<and> (\<forall>(name, details) \<in> set activities.
            length (filter (is_card name) (activitiesList (fetchActivities (Json activities) s))) = 1
          \<and> length (filter (has_attr_value ''value'' name)
                (drop (length (activitySelect s))
                   (activitySelect (fetchActivities (Json activities) s)))) = 1
          \<and> query (is_card name) (activitiesList (fetchActivities (Json activities) s)) =
              Some (activity_card name details)
          \<and> query (has_class ''availability'') (kids (activity_card name details)) =
              Some (Element ''p'' [(''class'', ''availability'')]
                      [Element ''strong'' [] [Text ''Availability:''],
                       Text ('' '' @ number_to_string
                              (max_participants details - int (length (participants details)))
                            @ '' spots left'')]))"
proof -
  have "length (filter (is_card name) (map (\<lambda>(n, d). activity_card n d) activities)) = 1"
    and "length (filter (has_attr_value ''value'' name)
           (map (\<lambda>(n, d). select_option n) activities)) = 1"
    and "query (is_card name) (map (\<lambda>(n, d). activity_card n d) activities) =
           Some (activity_card name details)"
    if "(name, details) \<in> set activities" for name details
    using that assms
    by (simp_all add: filter_cards filter_options one_entry_per_key query_is_card_rendered)
  then show ?thesis
    by (auto simp: fetchActivities_Json availability_shown)
qed

lemma fetchActivities_cards_and_appended_options_example:
  "distinct (map fst demo_catalog)
   \<and> length (activitiesList (fetchActivities (Json demo_catalog) host_page)) = 2
   \<and> length (activitySelect (fetchActivities (Json demo_catalog) host_page)) = 3
   \<and> length (filter (is_card ''Chess Club'')
        (activitiesList (fetchActivities (Json demo_catalog) host_page))) = 1
   \<and> query (has_class ''availability'') (kids (activity_card ''Chess Club'' chess_club)) =
        Some (Element ''p'' [(''class'', ''availability'')]
                [Element ''strong'' [] [Text ''Availability:''], Text '' 9 spots left''])"
proof -
  have d: "distinct (map fst demo_catalog)"
    by (simp add: demo_catalog_def)
  have n: "number_to_string (max_participants chess_club - int (length (participants chess_club))) = ''9''"
    by (simp add: chess_club_def number_to_string_def nat_digits.simps)
  have m: "(''Chess Club'', chess_club) \<in> set demo_catalog"
    by (simp add: demo_catalog_def)
  from fetchActivities_cards_and_appended_options [OF d, of host_page]
  have "activitiesList (fetchActivities (Json demo_catalog) host_page) =
           map (\<lambda>(name, details). activity_card name details) demo_catalog"
    and "activitySelect (fetchActivities (Json demo_catalog) host_page) =
           activitySelect host_page @ map (\<lambda>(name, details). select_option name) demo_catalog"
    and "\<forall>(name, details) \<in> set demo_catalog.
            length (filter (is_card name) (activitiesList (fetchActivities (Json demo_catalog) host_page))) = 1
          \<and> length (filter (has_attr_value ''value'' name)
                (drop (length (activitySelect host_page))
                   (activitySelect (fetchActivities (Json demo_catalog) host_page)))) = 1
          \<and> query (is_card name) (activitiesList (fetchActivities (Json demo_catalog) host_page)) =
              Some (activity_card name details)
          \<and> query (has_class ''availability'') (kids (activity_card name details)) =
              Some (Element ''p'' [(''class'', ''availability'')]
                      [Element ''strong'' [] [Text ''Availability:''],
                       Text ('' '' @ number_to_string
                              (max_participants details - int (length (participants details)))
                            @ '' spots left'')])"
    by blast+
  from this(1,2) this(3) [THEN bspec, OF m] d n show ?thesis
    by (simp add: demo_catalog_def host_page_def)
qed

text \<open>
  C2 fails on the code. \<^verbatim>\<open>fetchActivities\<close> clears the activity list before it
  appends the cards, but appends the options to the select without clearing it: a second
  load of the same catalog gives the same cards and every option a second time.
\<close>

theorem fetchActivities_twice_repeats_options:
  "activitiesList (fetchActivities (Json demo_catalog) (fetchActivities (Json demo_catalog) host_page)) =
     activitiesList (fetchActivities (Json demo_catalog) host_page)
   \<and> activitySelect (fetchActivities (Json demo_catalog) host_page) =
       [Element ''option'' [(''value'', [])] [Text ''-- Select an activity --''],
        select_option ''Chess Club'', select_option ''Art Club'']
   \<and> activitySelect (fetchActivities (Json demo_catalog) (fetchActivities (Json demo_catalog) host_page)) =
       [Element ''option'' [(''value'', [])] [Text ''-- Select an activity --''],
        select_option ''Chess Club'', select_option ''Art Club'',
        select_option ''Chess Club'', select_option ''Art Club'']"
  by (simp add: fetchActivities_Json demo_catalog_def host_page_def)

text \<open>
  C3. The server's strings reach the page as text only. The text nodes of a card are the
  name, the description, the schedule after a space, the availability line, and each
  participant's email, each string as it was received (an empty string gives no node);
  the name and the emails are also stored as attribute values. A full load leaves exactly the cards of the catalog, and its element structure is the
  same for any two catalogs with the same participant counts, whatever their strings.
  A single-card refresh of a rendered list leaves cards again, and its element structure
  is the same for any two fresh entries with the same participant count.
\<close>

theorem server_strings_are_text_only:
  "texts_node (activity_card name details) =
     texts (text_content name) @ texts (text_content (description details)) @
     [''Schedule:'', '' '' @ schedule details,
      ''Availability:'', '' '' @ number_to_string (spots_left details) @ '' spots left'',
      ''Participants:''] @
     (if participants details = [] then [''No participants yet. Be the first to sign up!'']
      else concat (map (\<lambda>email. texts (text_content email) @ [wastebasket])
                     (participants details)))
   \<and> activitiesList (fetchActivities (Json activities) s) =
       map (\<lambda>(n, d). activity_card n d) activities
   \<and> (map (\<lambda>(n, d). length (participants d)) activities =
        map (\<lambda>(n, d). length (participants d)) activities' \<longrightarrow>
      skeleton (activitiesList (fetchActivities (Json activities) s)) =
        skeleton (activitiesList (fetchActivities (Json activities') s')))
   \<and> (selector_safe name \<and> activitiesList s = map (\<lambda>(n, d). activity_card n d) shown
        \<and> distinct (map fst shown) \<and> map_of shown name = Some d0
        \<and> map_of activities name = Some d1 \<longrightarrow>
      activitiesList (updateActivityCard answer name (Json activities) fallback s) =
        map (\<lambda>(n, d). activity_card n
               (if n = name
                then d\<lparr>max_participants := max_participants d1, participants := participants d1\<rparr>
                else d)) shown)
   \<and> (selector_safe name \<and> activitiesList s = map (\<lambda>(n, d). activity_card n d) shown
        \<and> distinct (map fst shown) \<and> map_of shown name = Some d0
        \<and> map_of activities name = Some d1 \<and> map_of activities' name = Some d1'
        \<and> length (participants d1) = length (participants d1') \<longrightarrow>
      skeleton (activitiesList (updateActivityCard answer name (Json activities) fallback s)) =
        skeleton (activitiesList (updateActivityCard answer' name (Json activities') fallback' s)))"
proof -
  have T: "texts_node (activity_card name details) =
     texts (text_content name) @ texts (text_content (description details)) @
     [''Schedule:'', '' '' @ schedule details,
      ''Availability:'', '' '' @ number_to_string (spots_left details) @ '' spots left'',
      ''Participants:''] @
     (if participants details = [] then [''No participants yet. Be the first to sign up!'']
      else concat (map (\<lambda>email. texts (text_content email) @ [wastebasket])
                     (participants details)))"
    by (rule texts_activity_card)
  have L: "activitiesList (fetchActivities (Json activities) s) =
       map (\<lambda>(n, d). activity_card n d) activities"
    by (simp add: fetchActivities_Json)
  have S: "map (\<lambda>(n, d). length (participants d)) activities =
        map (\<lambda>(n, d). length (participants d)) activities' \<longrightarrow>
      skeleton (activitiesList (fetchActivities (Json activities) s)) =
        skeleton (activitiesList (fetchActivities (Json activities') s'))"
    unfolding activitiesList_fetchActivities
    by (rule impI, erule skeleton_rendered)
  have R: "selector_safe name \<and> activitiesList s = map (\<lambda>(n, d). activity_card n d) shown
        \<and> distinct (map fst shown) \<and> map_of shown name = Some d0
        \<and> map_of activities name = Some d1 \<longrightarrow>
      activitiesList (updateActivityCard answer name (Json activities) fallback s) =
        map (\<lambda>(n, d). activity_card n
               (if n = name
                then d\<lparr>max_participants := max_participants d1, participants := participants d1\<rparr>
                else d)) shown"
    using update_rendered_list [of name s shown d0 activities d1 answer fallback] by blast
  have Q: "selector_safe name \<and> activitiesList s = map (\<lambda>(n, d). activity_card n d) shown
        \<and> distinct (map fst shown) \<and> map_of shown name = Some d0
        \<and> map_of activities name = Some d1 \<and> map_of activities' name = Some d1'
        \<and> length (participants d1) = length (participants d1') \<longrightarrow>
      skeleton (activitiesList (updateActivityCard answer name (Json activities) fallback s)) =
        skeleton (activitiesList (updateActivityCard answer' name (Json activities') fallback' s))"
  proof (intro impI, elim conjE)
    assume h: "selector_safe name" "activitiesList s = map (\<lambda>(n, d). activity_card n d) shown"
      "distinct (map fst shown)" "map_of shown name = Some d0"
      and a: "map_of activities name = Some d1" and a': "map_of activities' name = Some d1'"
      and len: "length (participants d1) = length (participants d1')"
    show "skeleton (activitiesList (updateActivityCard answer name (Json activities) fallback s)) =
        skeleton (activitiesList (updateActivityCard answer' name (Json activities') fallback' s))"
      unfolding update_rendered_list [OF h a] update_rendered_list [OF h a']
      by (rule skeleton_refreshed [OF len])
  qed
  show ?thesis
    by (intro conjI T L S R Q)
qed

theorem server_strings_are_text_only_witness:
  "texts_node (activity_card ''<b>Chess</b>'' markup_club) =
     [''<b>Chess</b>'', ''<script>alert(1)</script>'', ''Schedule:'', '' <i>Fridays</i>'',
      ''Availability:'', '' 9 spots left'', ''Participants:'',
      ''<img src=x onerror=alert(1)>'', wastebasket]
   \<and> skeleton (activitiesList (fetchActivities (Json [(''<b>Chess</b>'', markup_club)]) host_page)) =
       skeleton (activitiesList (fetchActivities (Json [(''Chess Club'', chess_club)]) host_page))
   \<and> activitiesList (updateActivityCard No_match ''<b>Chess</b>'' (Json [(''<b>Chess</b>'', markup_club)])
        Rejected markup_page) = [activity_card ''<b>Chess</b>'' markup_club]
   \<and> skeleton (activitiesList (updateActivityCard No_match ''<b>Chess</b>''
        (Json [(''<b>Chess</b>'', markup_club)]) Rejected markup_page)) =
       skeleton (activitiesList (updateActivityCard No_match ''<b>Chess</b>''
        (Json [(''<b>Chess</b>'', chess_club)]) Rejected markup_page))"
proof -
  note t = server_strings_are_text_only
    [where name = "''<b>Chess</b>''" and details = markup_club
       and activities = "[(''<b>Chess</b>'', markup_club)]" and s = markup_page
       and activities' = "[(''<b>Chess</b>'', chess_club)]" and s' = host_page
       and shown = "[(''<b>Chess</b>'', markup_club)]" and ?d0.0 = markup_club
       and ?d1.0 = markup_club and d1' = chess_club
       and answer = No_match and answer' = No_match
       and fallback = Rejected and fallback' = Rejected]
  have safe: "selector_safe ''<b>Chess</b>''"
    by (simp add: selector_safe_def)
  have shown: "activitiesList markup_page =
      map (\<lambda>(n, d). activity_card n d) [(''<b>Chess</b>'', markup_club)]"
    by (simp add: markup_page_def activitiesList_fetchActivities)
  have len: "length (participants markup_club) = length (participants chess_club)"
    by (simp add: markup_club_def chess_club_def)
  have n: "number_to_string (spots_left markup_club) = ''9''"
    by (simp add: spots_left_def markup_club_def number_to_string_def nat_digits.simps)
  have t1: "texts_node (activity_card ''<b>Chess</b>'' markup_club) =
     [''<b>Chess</b>'', ''<script>alert(1)</script>'', ''Schedule:'', '' <i>Fridays</i>'',
      ''Availability:'', '' 9 spots left'', ''Participants:'',
      ''<img src=x onerror=alert(1)>'', wastebasket]"
    using t [THEN conjunct1] n by (simp add: text_content_def) (simp add: markup_club_def)
  have t3: "activitiesList (updateActivityCard No_match ''<b>Chess</b>'' (Json [(''<b>Chess</b>'', markup_club)])
        Rejected markup_page) = [activity_card ''<b>Chess</b>'' markup_club]"
    using t [THEN conjunct2, THEN conjunct2, THEN conjunct2, THEN conjunct1] safe shown
    by simp
  have t4: "skeleton (activitiesList (updateActivityCard No_match ''<b>Chess</b>''
        (Json [(''<b>Chess</b>'', markup_club)]) Rejected markup_page)) =
       skeleton (activitiesList (updateActivityCard No_match ''<b>Chess</b>''
        (Json [(''<b>Chess</b>'', chess_club)]) Rejected markup_page))"
    using t [THEN conjunct2, THEN conjunct2, THEN conjunct2, THEN conjunct2] safe shown len
    by simp
  have t2: "skeleton (activitiesList (fetchActivities (Json [(''<b>Chess</b>'', markup_club)]) host_page)) =
       skeleton (activitiesList (fetchActivities (Json [(''Chess Club'', chess_club)]) host_page))"
    using server_strings_are_text_only
      [where activities = "[(''<b>Chess</b>'', markup_club)]"
         and activities' = "[(''Chess Club'', chess_club)]" and s = host_page and s' = host_page,
       THEN conjunct2, THEN conjunct2, THEN conjunct1] len
    by simp
  from t1 t2 t3 t4 show ?thesis by (intro conjI)
qed

text \<open>
  C4 fails on the code for a name with a double quote in it. The name is spliced into
  the selector unescaped, so for the activity named
  \<^verbatim>\<open>x"],[data-activity-name="Chess Club\<close> the query is a selector list. On the page
  loaded with that activity and the chess club, the first element that carries one of
  the two names of the list is the chess club's card, the second node of the activity
  list, which is therefore the selector engine's answer. The refresh of the activity
  returns normally, leaves its own card as it was and rewrites the availability
  paragraph and the participants section of the chess club's card.
\<close>

theorem updateActivityCard_spliced_name_patches_other_card:
  "selector_text spliced_name =
       ''[data-activity-name='' @ [CHR 0x22] @ ''x'' @ [CHR 0x22] @ ''],[data-activity-name=''
         @ [CHR 0x22] @ ''Chess Club'' @ [CHR 0x22] @ '']''
   \<and> activitiesList spliced_page =
       [activity_card spliced_name spliced_club, activity_card ''Chess Club'' chess_club]
   \<and> query (\<lambda>n. is_card ''x'' n \<or> is_card ''Chess Club'' n) (activitiesList spliced_page) =
       Some (activity_card ''Chess Club'' chess_club)
   \<and> element_at [Suc 0] (activitiesList spliced_page) =
       Some (activity_card ''Chess Club'' chess_club)
   \<and> activitiesList (updateActivityCard (Match [Suc 0]) spliced_name
        (Json [(spliced_name, spliced_club_later), (''Chess Club'', chess_club)]) Rejected
        spliced_page) =
       [activity_card spliced_name spliced_club,
        Element ''div'' [(''class'', ''activity-card''), (''data-activity-name'', ''Chess Club'')]
          [card_title ''Chess Club'', card_description chess_club, card_schedule chess_club,
           card_availability spliced_club_later,
           card_participants spliced_name spliced_club_later]]
   \<and> console (updateActivityCard (Match [Suc 0]) spliced_name
        (Json [(spliced_name, spliced_club_later), (''Chess Club'', chess_club)]) Rejected
        spliced_page) = []"
proof -
  let ?s = "send Get_activities spliced_page"
  let ?fresh = "[(spliced_name, spliced_club_later), (''Chess Club'', chess_club)]"
  let ?new = "Element ''div'' [(''class'', ''activity-card''), (''data-activity-name'', ''Chess Club'')]
          [card_title ''Chess Club'', card_description chess_club, card_schedule chess_club,
           card_availability spliced_club_later,
           card_participants spliced_name spliced_club_later]"
  have t: "selector_text spliced_name =
       ''[data-activity-name='' @ [CHR 0x22] @ ''x'' @ [CHR 0x22] @ ''],[data-activity-name=''
         @ [CHR 0x22] @ ''Chess Club'' @ [CHR 0x22] @ '']''"
    by (simp add: selector_text_def spliced_name_def)
  have l: "activitiesList ?s =
      [activity_card spliced_name spliced_club, activity_card ''Chess Club'' chess_club]"
    by (simp add: spliced_page_def fetchActivities_Json send_def)
  have c: "console ?s = []"
    by (simp add: spliced_page_def fetchActivities_Json send_def host_page_def)
  have el: "element_at [Suc 0] (activitiesList ?s) = Some (activity_card ''Chess Club'' chess_club)"
    unfolding l by (simp add: element_at_def activity_card_def)
  have q: "document_querySelector (Match [Suc 0]) spliced_name ?s =
      Inr (Some (activity_card ''Chess Club'' chess_club))"
    by (simp add: document_querySelector_def spliced_name_unsafe el)
  have g: "js_get ?fresh spliced_name = Own spliced_club_later"
    by (simp add: js_get_def)
  have r: "replace_card (Match [Suc 0]) spliced_name n ?s =
      ?s\<lparr>activitiesList := [activity_card spliced_name spliced_club, n]\<rparr>" for n
    by (simp add: replace_card_def spliced_name_unsafe) (simp add: l)
  have p: "patch_participants spliced_name spliced_club_later
      (patch_availability (spots_left spliced_club_later) (activity_card ''Chess Club'' chess_club)) =
      ?new"
    by (simp add: patch_participants_other_card card_availability_def)
  have "update_try (Match [Suc 0]) spliced_name ?fresh ?s =
      Returned (?s\<lparr>activitiesList := [activity_card spliced_name spliced_club, ?new]\<rparr>)"
    by (simp add: update_try_def g q Let_def query_section_patched r p)
  then have u: "updateActivityCard (Match [Suc 0]) spliced_name (Json ?fresh) Rejected spliced_page =
      ?s\<lparr>activitiesList := [activity_card spliced_name spliced_club, ?new]\<rparr>"
    by (simp add: updateActivityCard_def)
  have ne: "spliced_name \<noteq> ''x''" "spliced_name \<noteq> ''Chess Club''"
    by (simp_all add: spliced_name_def)
  have l': "activitiesList spliced_page =
      [activity_card spliced_name spliced_club, activity_card ''Chess Club'' chess_club]"
    using l by (simp add: send_def)
  have first: "query (\<lambda>n. is_card ''x'' n \<or> is_card ''Chess Club'' n) (activitiesList spliced_page) =
       Some (activity_card ''Chess Club'' chess_club)"
    unfolding l' using ne by (simp add: query_node_either)
  have el': "element_at [Suc 0] (activitiesList spliced_page) =
       Some (activity_card ''Chess Club'' chess_club)"
    using el by (simp add: send_def)
  show ?thesis
    unfolding u using t l' c first el' by (simp add: send_def)
qed

text \<open>
  For a name that is safe in the selector the frame holds. On a page whose list was
  rendered from a catalog, a refresh of the card of \<open>name\<close> that finds the activity in
  the fresh catalog rewrites the availability paragraph and the participants section of
  that card from the fresh entry \<open>d1\<close>. The card's title, description and schedule stay
  those of the entry it was rendered from, every other card, the select, the message
  and the console are unchanged, and one request was sent.
\<close>

lemma updateActivityCard_patches_dynamic_parts_only:
  assumes "selector_safe name"
    and "activitiesList s = map (\<lambda>(n, d). activity_card n d) shown"
    and "distinct (map fst shown)"
    and "map_of shown name = Some d0"
    and "map_of activities name = Some d1"
  shows "updateActivityCard answer name (Json activities) fallback s =
           s\<lparr>activitiesList :=
               map (\<lambda>(n, d).
                      if n = name
                      then Element ''div'' [(''class'', ''activity-card''), (''data-activity-name'', n)]
                             [card_title n, card_description d, card_schedule d,
                              card_availability d1, card_participants n d1]
                      else activity_card n d) shown,
             requests := requests s @ [Get_activities]\<rparr>
       \<and> activitySelect (updateActivityCard answer name (Json activities) fallback s) = activitySelect s"
proof -
  have "update_try answer name activities (send Get_activities s) =
      Returned ((send Get_activities s)\<lparr>activitiesList :=
               map (\<lambda>(n, d).
                      if n = name
                      then Element ''div'' [(''class'', ''activity-card''), (''data-activity-name'', n)]
                             [card_title n, card_description d, card_schedule d,
                              card_availability d1, card_participants n d1]
                      else activity_card n d) shown\<rparr>)"
    using assms by (intro update_try_rendered) (simp_all add: send_def)
  then show ?thesis
    by (simp add: updateActivityCard_def send_def)
qed

lemma updateActivityCard_patches_dynamic_parts_only_example:
  "selector_safe ''Chess Club''
   \<and> activitiesList loaded_page = [activity_card ''Chess Club'' chess_club, activity_card ''Art Club'' art_club]
   \<and> activitiesList (updateActivityCard No_match ''Chess Club''
        (Json [(''Chess Club'', chess_club_later)]) Rejected loaded_page) =
       [Element ''div'' [(''class'', ''activity-card''), (''data-activity-name'', ''Chess Club'')]
          [card_title ''Chess Club'', card_description chess_club, card_schedule chess_club,
           card_availability chess_club_later, card_participants ''Chess Club'' chess_club_later],
        activity_card ''Art Club'' art_club]
   \<and> activitySelect (updateActivityCard No_match ''Chess Club''
        (Json [(''Chess Club'', chess_club_later)]) Rejected loaded_page) = activitySelect loaded_page"
proof -
  have a: "selector_safe ''Chess Club''"
    by (simp add: selector_safe_def)
  have b: "activitiesList loaded_page = map (\<lambda>(n, d). activity_card n d) demo_catalog"
    by (rule loaded_page_list)
  have c: "distinct (map fst demo_catalog)"
    by (simp add: demo_catalog_def)
  have d: "map_of demo_catalog ''Chess Club'' = Some chess_club"
    by (simp add: demo_catalog_def)
  have e: "map_of [(''Chess Club'', chess_club_later)] ''Chess Club'' = Some chess_club_later"
    by simp
  from updateActivityCard_patches_dynamic_parts_only [OF a b c d e, of No_match Rejected] a b
  show ?thesis
    by (simp add: demo_catalog_def)
qed

text \<open>
  C5 fails on the code for a name that \<^verbatim>\<open>Object.prototype\<close> defines. The test
  \<^verbatim>\<open>!activities[activityName]\<close> reads the inherited member, which is truthy, so an
  activity that is gone from the fresh catalog is not reported as missing. With its card
  still in the list, \<^verbatim>\<open>details.participants.length\<close> throws a TypeError, and the
  \<^verbatim>\<open>catch\<close> block reloads the whole catalog: the list is rebuilt and the select
  gets every option again.
\<close>

theorem updateActivityCard_inherited_name_reloads:
  "map_of chess_only ''constructor'' = None
   \<and> activitiesList constructor_page =
       [activity_card ''constructor'' art_club, activity_card ''Chess Club'' chess_club]
   \<and> activitySelect constructor_page =
       [Element ''option'' [(''value'', [])] [Text ''-- Select an activity --''],
        select_option ''constructor'', select_option ''Chess Club'']
   \<and> activitiesList (updateActivityCard No_match ''constructor'' (Json chess_only) (Json chess_only)
        constructor_page) = [activity_card ''Chess Club'' chess_club]
   \<and> activitySelect (updateActivityCard No_match ''constructor'' (Json chess_only) (Json chess_only)
        constructor_page) =
       [Element ''option'' [(''value'', [])] [Text ''-- Select an activity --''],
        select_option ''constructor'', select_option ''Chess Club'', select_option ''Chess Club'']
   \<and> console (updateActivityCard No_match ''constructor'' (Json chess_only) (Json chess_only)
        constructor_page) = [''Error updating activity card:'']"
proof -
  have l: "activitiesList constructor_page = map (\<lambda>(n, d). activity_card n d) removed_catalog"
    by (simp add: constructor_page_def fetchActivities_Json)
  have g: "js_get chess_only ''constructor'' = Inherited"
    by (simp add: js_get_def chess_only_def object_prototype_names_def)
  have q: "document_querySelector No_match ''constructor'' (send Get_activities constructor_page) =
      Inr (Some (activity_card ''constructor'' art_club))"
    by (simp add: document_querySelector_def selector_safe_def send_def l query_is_card_rendered)
      (simp add: removed_catalog_def)
  have u: "update_try No_match ''constructor'' chess_only (send Get_activities constructor_page) =
      Thrown TypeError (send Get_activities constructor_page)"
    by (simp add: update_try_def g q)
  show ?thesis
    by (simp add: updateActivityCard_def u update_catch_def fetchActivities_Json)
      (simp add: constructor_page_def fetchActivities_Json send_def console_error_def
        removed_catalog_def chess_only_def host_page_def)
qed

text \<open>
  For a name that objects do not inherit, the function does return without touching
  the DOM. When the fresh catalog has no property of that name, own or
  inherited, the function logs that the activity was not found and returns. When it has
  one but the list has no card for the name (a name that is safe in the selector), it
  logs that the card was not found and returns. In both cases only the request log and
  the console change.
\<close>

lemma updateActivityCard_absent_is_noop:
  "(js_get activities name = Undefined \<longrightarrow>
      updateActivityCard answer name (Json activities) fallback s =
        console_error (''Activity '' @ name @ '' not found'') (send Get_activities s))
   \<and> (js_get activities name \<noteq> Undefined \<and> selector_safe name
        \<and> query (is_card name) (activitiesList s) = None \<longrightarrow>
      updateActivityCard answer name (Json activities) fallback s =
        console_error (''Card for '' @ name @ '' not found'') (send Get_activities s))
   \<and> activitiesList (console_error line (send Get_activities s)) = activitiesList s
   \<and> activitySelect (console_error line (send Get_activities s)) = activitySelect s
   \<and> message_text (console_error line (send Get_activities s)) = message_text s
   \<and> message_class (console_error line (send Get_activities s)) = message_class s"
proof -
  have "updateActivityCard answer name (Json activities) fallback s =
      console_error (''Activity '' @ name @ '' not found'') (send Get_activities s)"
    if "js_get activities name = Undefined"
    using that by (simp add: updateActivityCard_def update_try_def)
  moreover have "updateActivityCard answer name (Json activities) fallback s =
      console_error (''Card for '' @ name @ '' not found'') (send Get_activities s)"
    if "js_get activities name \<noteq> Undefined" and "selector_safe name"
      and "query (is_card name) (activitiesList s) = None"
  proof -
    have "document_querySelector answer name (send Get_activities s) = Inr None"
      using that by (simp add: document_querySelector_def send_def)
    with that(1) show ?thesis
      by (cases "js_get activities name") (simp_all add: updateActivityCard_def update_try_def)
  qed
  ultimately show ?thesis
    by (simp add: console_error_def send_def)
qed

lemma updateActivityCard_absent_is_noop_example:
  "js_get demo_catalog ''Drama Club'' = Undefined
   \<and> updateActivityCard No_match ''Drama Club'' (Json demo_catalog) Rejected loaded_page =
       console_error ''Activity Drama Club not found'' (send Get_activities loaded_page)
   \<and> js_get demo_catalog ''Chess Club'' \<noteq> Undefined \<and> selector_safe ''Chess Club''
   \<and> query (is_card ''Chess Club'') (activitiesList host_page) = None
   \<and> updateActivityCard No_match ''Chess Club'' (Json demo_catalog) Rejected host_page =
       console_error ''Card for Chess Club not found'' (send Get_activities host_page)"
proof -
  have a: "js_get demo_catalog ''Drama Club'' = Undefined"
    by (simp add: js_get_def demo_catalog_def object_prototype_names_def)
  have b: "js_get demo_catalog ''Chess Club'' \<noteq> Undefined"
    by (simp add: js_get_def demo_catalog_def)
  have c: "selector_safe ''Chess Club''"
    by (simp add: selector_safe_def)
  have d: "query (is_card ''Chess Club'') (activitiesList host_page) = None"
    by (simp add: host_page_def is_card_Element)
  from updateActivityCard_absent_is_noop
    [of demo_catalog "''Drama Club''" No_match Rejected loaded_page, THEN conjunct1] a
  have e: "updateActivityCard No_match ''Drama Club'' (Json demo_catalog) Rejected loaded_page =
       console_error ''Activity Drama Club not found'' (send Get_activities loaded_page)"
    by simp
  from updateActivityCard_absent_is_noop
    [of demo_catalog "''Chess Club''" No_match Rejected host_page, THEN conjunct2, THEN conjunct1]
    b c d
  have f: "updateActivityCard No_match ''Chess Club'' (Json demo_catalog) Rejected host_page =
       console_error ''Card for Chess Club not found'' (send Get_activities host_page)"
    by simp
  from a b c d e f show ?thesis by (intro conjI)
qed

text \<open>
  C6. When the request of \<^verbatim>\<open>updateActivityCard\<close> fails (the network request is
  rejected, or the body does not parse as JSON), the function logs the error and runs
  \<^verbatim>\<open>fetchActivities\<close>: the result is the full reload of the page as it was, and a
  second request for the catalog has been sent.
\<close>

theorem updateActivityCard_fetch_failure:
  assumes "response = Rejected \<or> response = Not_json"
  shows "updateActivityCard answer activityName response fallback s =
           fetchActivities fallback
             (console_error ''Error updating activity card:'' (send Get_activities s))
         \<and> requests (updateActivityCard answer activityName response fallback s) =
             requests s @ [Get_activities, Get_activities]"
  using assms
  by (auto simp: updateActivityCard_def update_catch_def requests_fetchActivities
      console_error_def send_def)

theorem updateActivityCard_fetch_failure_witness:
  "(Not_json = (Rejected :: catalog fetched) \<or> Not_json = (Not_json :: catalog fetched))
   \<and> activitiesList (updateActivityCard No_match ''Chess Club'' Not_json (Json demo_catalog) host_page) =
       [activity_card ''Chess Club'' chess_club, activity_card ''Art Club'' art_club]
   \<and> console (updateActivityCard No_match ''Chess Club'' Not_json (Json demo_catalog) host_page) =
       [''Error updating activity card:'']
   \<and> requests (updateActivityCard No_match ''Chess Club'' Not_json (Json demo_catalog) host_page) =
       [Get_activities, Get_activities]"
  using updateActivityCard_fetch_failure
    [of Not_json No_match "''Chess Club''" "Json demo_catalog" host_page]
  by (simp add: fetchActivities_Json demo_catalog_def host_page_def console_error_def send_def)

text \<open>
  C7, amended. For a signup answered with a non-ok response whose JSON body has a
  non-empty \<^verbatim>\<open>detail\<close> string, the message area shows exactly that text with the
  class \<^verbatim>\<open>error\<close>, and no card refresh happens: the activity list and the select are
  unchanged and the only request sent is the signup itself. For an empty
  \<^verbatim>\<open>detail\<close> string the handler does the same with the text
  \<^verbatim>\<open>An error occurred\<close>.
\<close>

theorem signup_rejected_shows_detail:
  assumes "d \<noteq> []"
  shows "signup_submit answer email activity (Json (Reply False m (Some d))) refresh fallback s =
           showMessage d ''error'' (send (Post_signup activity email) s)
         \<and> message_text (signup_submit answer email activity (Json (Reply False m (Some d))) refresh fallback s) = d
         \<and> message_class (signup_submit answer email activity (Json (Reply False m (Some d))) refresh fallback s) = [''error'']
         \<and> activitiesList (signup_submit answer email activity (Json (Reply False m (Some d))) refresh fallback s) = activitiesList s
         \<and> activitySelect (signup_submit answer email activity (Json (Reply False m (Some d))) refresh fallback s) = activitySelect s
         \<and> requests (signup_submit answer email activity (Json (Reply False m (Some d))) refresh fallback s) =
             requests s @ [Post_signup activity email]
         \<and> signup_submit answer email activity (Json (Reply False m (Some []))) refresh fallback s =
             showMessage ''An error occurred'' ''error'' (send (Post_signup activity email) s)
         \<and> message_text (signup_submit answer email activity (Json (Reply False m (Some []))) refresh fallback s) =
             ''An error occurred''
         \<and> message_class (signup_submit answer email activity (Json (Reply False m (Some []))) refresh fallback s) =
             [''error'']
         \<and> activitiesList (signup_submit answer email activity (Json (Reply False m (Some []))) refresh fallback s) =
             activitiesList s
         \<and> requests (signup_submit answer email activity (Json (Reply False m (Some []))) refresh fallback s) =
             requests s @ [Post_signup activity email]"
  using assms
  by (simp add: signup_submit_def detail_or_default_def showMessage_def send_def
      class_tokens_def ascii_whitespace_def)

theorem signup_rejected_shows_detail_witness:
  "''Already signed up'' \<noteq> []
   \<and> message_text (signup_submit No_match ''a@x.com'' ''Chess Club''
        (Json (Reply False None (Some ''Already signed up''))) (Json demo_catalog) (Json demo_catalog) loaded_page) =
      ''Already signed up''
   \<and> message_class (signup_submit No_match ''a@x.com'' ''Chess Club''
        (Json (Reply False None (Some ''Already signed up''))) (Json demo_catalog) (Json demo_catalog) loaded_page) =
      [''error'']
   \<and> requests (signup_submit No_match ''a@x.com'' ''Chess Club''
        (Json (Reply False None (Some ''Already signed up''))) (Json demo_catalog) (Json demo_catalog) loaded_page) =
      [Get_activities, Post_signup ''Chess Club'' ''a@x.com'']"
proof -
  have n: "''Already signed up'' \<noteq> []" by simp
  have r: "requests loaded_page = [Get_activities]"
    by (simp add: loaded_page_def requests_fetchActivities host_page_def)
  show ?thesis
    using signup_rejected_shows_detail [OF n, of No_match "''a@x.com''" "''Chess Club''" None
        "Json demo_catalog" "Json demo_catalog" loaded_page, THEN conjunct2] r
    by simp
qed

text \<open>
  C7 as stated fails for the body \<^verbatim>\<open>{"detail": ""}\<close>: the empty string is falsy, so
  \<^verbatim>\<open>result.detail || "An error occurred"\<close> shows the fallback text, not the detail.
\<close>

theorem signup_empty_detail_counterexample:
  "message_text (signup_submit No_match ''a@x.com'' ''Chess Club''
        (Json (Reply False None (Some []))) (Json demo_catalog) (Json demo_catalog) loaded_page) =
      ''An error occurred''"
  by (simp add: signup_submit_def detail_or_default_def showMessage_def Let_def)

text \<open>
  C8. A click on a removal control whose confirmation prompt is declined leaves the
  whole page state as it was: no request is sent, and the activity list, the select and
  the message are unchanged.
\<close>

theorem remove_click_declined:
  assumes "has_class ''remove-participant-btn'' target"
    and "\<not> confirm (confirmation_message (template_string (get_attr target ''data-email''))
                  (template_string (get_attr target ''data-activity'')))"
  shows "remove_click answer target confirm response refresh fallback s = s"
  using assms by (simp add: remove_click_def Let_def)

theorem remove_click_declined_witness:
  "has_class ''remove-participant-btn'' chess_remove_button
   \<and> \<not> decline_chess_removal
        (confirmation_message (template_string (get_attr chess_remove_button ''data-email''))
           (template_string (get_attr chess_remove_button ''data-activity'')))
   \<and> remove_click No_match chess_remove_button decline_chess_removal
        (Json (Reply True (Some ''Unregistered'') None)) (Json []) (Json []) loaded_page =
      loaded_page
   \<and> requests (remove_click No_match chess_remove_button decline_chess_removal
        (Json (Reply True (Some ''Unregistered'') None)) (Json []) (Json []) loaded_page) =
      [Get_activities]"
proof -
  have b: "has_class ''remove-participant-btn'' chess_remove_button"
    by (simp add: chess_remove_button_def has_class_Element tokens_simps)
  have d: "\<not> decline_chess_removal
        (confirmation_message (template_string (get_attr chess_remove_button ''data-email''))
           (template_string (get_attr chess_remove_button ''data-activity'')))"
    by (simp add: decline_chess_removal_def confirmation_message_def template_string_def
        get_attr_def chess_remove_button_def)
  have r: "requests loaded_page = [Get_activities]"
    by (simp add: loaded_page_def requests_fetchActivities host_page_def)
  show ?thesis
    using remove_click_declined [of chess_remove_button decline_chess_removal No_match
        "Json (Reply True (Some ''Unregistered'') None)" "Json []" "Json []" loaded_page] b d r
    by simp
qed

text \<open>
  C9, amended. \<^verbatim>\<open>showMessage\<close> sets the text and the kind, makes the message
  visible and sets a timer that hides it 5000 ms later. It cancels no timer: with no
  other event, the message is visible after \<open>d\<close> ms exactly when \<open>d < 5000\<close> and no
  timer of an earlier call is due by then. So the message is shown for its full five
  seconds exactly when no earlier timer fires within them.
\<close>

theorem showMessage_visible_until_first_timer:
  "message_text (showMessage text type s) = text
   \<and> message_class (showMessage text type s) = removeAll ''hidden'' (class_tokens type)
   \<and> message_visible (showMessage text type s)
   \<and> timers (showMessage text type s) = timers s @ [now s + 5000]
   \<and> (message_visible (advance d (showMessage text type s)) \<longleftrightarrow>
        d < 5000 \<and> (\<forall>u \<in> set (timers s). now s + d < u))"
  by (auto simp: message_visible_advance) (auto simp: showMessage_def message_visible_def)

theorem showMessage_visible_until_first_timer_witness:
  "message_text (showMessage ''Signed up'' ''success'' host_page) = ''Signed up''
   \<and> message_class (showMessage ''Signed up'' ''success'' host_page) = [''success'']
   \<and> timers (showMessage ''Signed up'' ''success'' host_page) = [5000]
   \<and> message_visible (advance 4999 (showMessage ''Signed up'' ''success'' host_page))
   \<and> \<not> message_visible (advance 5000 (showMessage ''Signed up'' ''success'' host_page))
   \<and> timers (advance 3000 (showMessage ''Signed up'' ''success'' host_page)) = [5000]
   \<and> message_visible (advance 1999 (showMessage ''Removed'' ''success''
         (advance 3000 (showMessage ''Signed up'' ''success'' host_page))))
   \<and> \<not> message_visible (advance 2000 (showMessage ''Removed'' ''success''
         (advance 3000 (showMessage ''Signed up'' ''success'' host_page))))"
proof -
  have p: "timers (advance 3000 (showMessage ''Signed up'' ''success'' host_page)) = [5000]"
    "now (advance 3000 (showMessage ''Signed up'' ''success'' host_page)) = 3000"
    by (simp_all add: advance_def showMessage_def host_page_def Let_def)
  from showMessage_visible_until_first_timer [of "''Signed up''" "''success''" host_page 4999]
    showMessage_visible_until_first_timer [of "''Signed up''" "''success''" host_page 5000]
    showMessage_visible_until_first_timer [of "''Removed''" "''success''"
      "advance 3000 (showMessage ''Signed up'' ''success'' host_page)" 1999]
    showMessage_visible_until_first_timer [of "''Removed''" "''success''"
      "advance 3000 (showMessage ''Signed up'' ''success'' host_page)" 2000]
  show ?thesis
    by (simp add: p) (simp add: host_page_def class_tokens_def ascii_whitespace_def)
qed

text \<open>
  C9 as stated fails: a message shown 3000 ms after an earlier one is hidden 2000 ms
  later, when the first call's timer fires.
\<close>

theorem showMessage_later_message_hidden_early_counterexample:
  "message_visible (showMessage ''second'' ''error'' (advance 3000 (showMessage ''first'' ''success'' host_page)))
   \<and> now (showMessage ''second'' ''error'' (advance 3000 (showMessage ''first'' ''success'' host_page))) = 3000
   \<and> message_visible (advance 1999 (showMessage ''second'' ''error''
        (advance 3000 (showMessage ''first'' ''success'' host_page))))
   \<and> message_text (advance 2000 (showMessage ''second'' ''error''
        (advance 3000 (showMessage ''first'' ''success'' host_page)))) = ''second''
   \<and> \<not> message_visible (advance 2000 (showMessage ''second'' ''error''
        (advance 3000 (showMessage ''first'' ''success'' host_page))))"
  by (simp add: message_visible_advance)
    (simp add: showMessage_def advance_def host_page_def message_visible_def Let_def
      hide_message_def class_tokens_def ascii_whitespace_def)

text \<open>
  C10. With the card of \<open>name\<close> found and the activity in the fresh catalog: a card
  without an availability element is patched all the same (only its participants section
  is rewritten, nothing is logged, no second request); a card without a participants
  section makes \<^verbatim>\<open>participantsSection.innerHTML = ''\<close> throw on \<^verbatim>\<open>null\<close>, and
  the \<^verbatim>\<open>catch\<close> block logs and runs \<^verbatim>\<open>fetchActivities\<close> on the page as the
  availability patch left it.
\<close>

theorem updateActivityCard_missing_elements:
  assumes "selector_safe name"
    and "map_of activities name = Some details"
    and "query (is_card name) (activitiesList s) = Some existingCard"
  shows "(query (has_class ''availability'') (kids existingCard) = None
          \<and> query (has_class ''participants-section'') (kids existingCard) \<noteq> None \<longrightarrow>
            updateActivityCard answer name (Json activities) fallback s =
              replace_card answer name (patch_participants name details existingCard)
                (send Get_activities s))
       \<and> (query (has_class ''participants-section'') (kids existingCard) = None \<longrightarrow>
            updateActivityCard answer name (Json activities) fallback s =
              fetchActivities fallback
                (console_error ''Error updating activity card:''
                   (replace_card answer name (patch_availability (spots_left details) existingCard)
                      (send Get_activities s))))"
proof -
  have q: "document_querySelector answer name (send Get_activities s) = Inr (Some existingCard)"
    using assms by (simp add: document_querySelector_def send_def)
  have g: "js_get activities name = Own details"
    using assms by (simp add: js_get_def)
  have "updateActivityCard answer name (Json activities) fallback s =
      replace_card answer name (patch_participants name details existingCard) (send Get_activities s)"
    if "query (has_class ''availability'') (kids existingCard) = None"
      and "query (has_class ''participants-section'') (kids existingCard) \<noteq> None"
  proof -
    from that(1) have "patch_availability (spots_left details) existingCard = existingCard"
      by (simp add: patch_availability_def)
    with that(2) show ?thesis
      by (auto simp: updateActivityCard_def update_try_def q g Let_def)
  qed
  moreover have "updateActivityCard answer name (Json activities) fallback s =
      fetchActivities fallback
        (console_error ''Error updating activity card:''
           (replace_card answer name (patch_availability (spots_left details) existingCard)
              (send Get_activities s)))"
    if "query (has_class ''participants-section'') (kids existingCard) = None"
    using patch_availability_keeps_missing_section [OF that, of "spots_left details"]
    by (simp add: updateActivityCard_def update_try_def q g Let_def update_catch_def)
  ultimately show ?thesis by blast
qed

theorem updateActivityCard_missing_elements_witness:
  "activitiesList (updateActivityCard No_match ''Chess Club'' (Json demo_catalog) Rejected section_only_page) =
     [Element ''div'' [(''data-activity-name'', ''Chess Club'')]
        [card_participants ''Chess Club'' chess_club]]
   \<and> console (updateActivityCard No_match ''Chess Club'' (Json demo_catalog) Rejected section_only_page) = []
   \<and> requests (updateActivityCard No_match ''Chess Club'' (Json demo_catalog) Rejected section_only_page) =
       [Get_activities]
   \<and> activitiesList (updateActivityCard No_match ''Chess Club'' (Json demo_catalog) (Json demo_catalog)
        availability_only_page) =
       [activity_card ''Chess Club'' chess_club, activity_card ''Art Club'' art_club]
   \<and> console (updateActivityCard No_match ''Chess Club'' (Json demo_catalog) (Json demo_catalog)
        availability_only_page) = [''Error updating activity card:'']
   \<and> requests (updateActivityCard No_match ''Chess Club'' (Json demo_catalog) (Json demo_catalog)
        availability_only_page) = [Get_activities, Get_activities]"
proof -
  have a: "selector_safe ''Chess Club''"
    by (simp add: selector_safe_def)
  have b: "map_of demo_catalog ''Chess Club'' = Some chess_club"
    by (simp add: demo_catalog_def)
  have c1: "query (is_card ''Chess Club'') (activitiesList section_only_page) =
      Some (Element ''div'' [(''data-activity-name'', ''Chess Club'')]
              [Element ''div'' [(''class'', ''participants-section'')] [Text ''stale'']])"
    by (simp add: section_only_page_def is_card_Element)
  have c2: "query (is_card ''Chess Club'') (activitiesList availability_only_page) =
      Some (Element ''div'' [(''data-activity-name'', ''Chess Club'')]
              [Element ''p'' [(''class'', ''availability'')] [Text ''stale'']])"
    by (simp add: availability_only_page_def is_card_Element)
  have d1: "query (has_class ''availability'')
        (kids (Element ''div'' [(''data-activity-name'', ''Chess Club'')]
              [Element ''div'' [(''class'', ''participants-section'')] [Text ''stale'']])) = None
      \<and> query (has_class ''participants-section'')
        (kids (Element ''div'' [(''data-activity-name'', ''Chess Club'')]
              [Element ''div'' [(''class'', ''participants-section'')] [Text ''stale'']])) \<noteq> None"
    by (simp add: has_class_Element tokens_simps)
  have d2: "query (has_class ''participants-section'')
        (kids (Element ''div'' [(''data-activity-name'', ''Chess Club'')]
              [Element ''p'' [(''class'', ''availability'')] [Text ''stale'']])) = None"
    by (simp add: has_class_Element tokens_simps)
  from updateActivityCard_missing_elements
    [OF a b c1, of No_match Rejected, THEN conjunct1, rule_format, OF d1]
  have e1: "updateActivityCard No_match ''Chess Club'' (Json demo_catalog) Rejected section_only_page =
      replace_card No_match ''Chess Club''
        (patch_participants ''Chess Club'' chess_club
           (Element ''div'' [(''data-activity-name'', ''Chess Club'')]
              [Element ''div'' [(''class'', ''participants-section'')] [Text ''stale'']]))
        (send Get_activities section_only_page)" .
  from updateActivityCard_missing_elements
    [OF a b c2, of No_match "Json demo_catalog", THEN conjunct2, rule_format, OF d2]
  have e2: "updateActivityCard No_match ''Chess Club'' (Json demo_catalog) (Json demo_catalog) availability_only_page =
      fetchActivities (Json demo_catalog)
        (console_error ''Error updating activity card:''
           (replace_card No_match ''Chess Club''
              (patch_availability (spots_left chess_club)
                 (Element ''div'' [(''data-activity-name'', ''Chess Club'')]
                    [Element ''p'' [(''class'', ''availability'')] [Text ''stale'']]))
              (send Get_activities availability_only_page)))" .
  have f1: "activitiesList (replace_card No_match ''Chess Club''
        (patch_participants ''Chess Club'' chess_club
           (Element ''div'' [(''data-activity-name'', ''Chess Club'')]
              [Element ''div'' [(''class'', ''participants-section'')] [Text ''stale'']]))
        (send Get_activities section_only_page)) =
      [Element ''div'' [(''data-activity-name'', ''Chess Club'')]
        [card_participants ''Chess Club'' chess_club]]"
    by (simp add: replace_card_safe [OF a] send_def section_only_page_def is_card_Element
        patch_participants_def has_class_Element tokens_simps card_participants_def)
  show ?thesis
    unfolding e1 e2
    by (simp add: f1 fetchActivities_Json)
      (simp add: replace_card_safe [OF a] send_def console_error_def section_only_page_def
        availability_only_page_def host_page_def demo_catalog_def)
qed

end
